theory Spec2Isabelle
  imports Complex_Main "HOL-Library.Multiset" "HOL-Library.AList" "HOL-Library.Sublist"
begin

chapter \<open>The model\<close>

text \<open>
  A shallow embedding of the service layer of the historical-map client
  (\<^verbatim>\<open>src/services/apiService.ts\<close>): the text normaliser, the field resolver, the remote
  fetcher with its race over proxies, the response unwrapper, the reference data store, the
  site and person mappers, the event hydrator, the person location resolver, the site and
  person orchestrators and the address search. Module state (the reference store, the site
  cache, the person cache) is passed in and returned; an expression that may throw and a
  promise that may reject return an \<open>outcome\<close>; a call that may not return returns an
  option.
\<close>

section \<open>Strings\<close>

text \<open>
  A JavaScript string is a sequence of UTF-16 code units; \<open>length\<close> counts code units, as
  \<^verbatim>\<open>String.prototype.length\<close> does. Literals of the source that are plain ASCII are written
  \<open>js ''...''\<close>; the Vietnamese literals are spelled out as code units (the source file is in
  normal form C).
\<close>

type_synonym jsstring = "nat list"

definition js :: "string \<Rightarrow> jsstring" where
  "js s = map of_char s"

text \<open>\<^verbatim>\<open>\s\<close> of a regular expression, which is also what \<^verbatim>\<open>trim\<close> removes: white space
  and line terminators.\<close>

definition is_space :: "nat \<Rightarrow> bool" where
  "is_space c \<longleftrightarrow>
     c \<in> {9, 10, 11, 12, 13, 32, 160, 5760, 8232, 8233, 8239, 8287, 12288, 65279}
     \<or> (8192 \<le> c \<and> c \<le> 8202)"

text \<open>\<^verbatim>\<open>\d\<close>: the ASCII digits.\<close>

definition is_digit :: "nat \<Rightarrow> bool" where
  "is_digit c \<longleftrightarrow> 48 \<le> c \<and> c \<le> 57"

text \<open>The class \<^verbatim>\<open>[\s,;-]\<close>.\<close>

definition is_sep :: "nat \<Rightarrow> bool" where
  "is_sep c \<longleftrightarrow> is_space c \<or> c = 44 \<or> c = 59 \<or> c = 45"

text \<open>\<^verbatim>\<open>text.includes(pat)\<close>: \<open>pat\<close> occurs in \<open>text\<close> as a contiguous substring.\<close>

fun starts_with :: "jsstring \<Rightarrow> jsstring \<Rightarrow> bool" where
  "starts_with text [] = True"
| "starts_with [] (p # ps) = False"
| "starts_with (c # cs) (p # ps) = (c = p \<and> starts_with cs ps)"

fun js_includes :: "jsstring \<Rightarrow> jsstring \<Rightarrow> bool" where
  "js_includes [] pat = starts_with [] pat"
| "js_includes (c # cs) pat = (starts_with (c # cs) pat \<or> js_includes cs pat)"

definition trim :: "jsstring \<Rightarrow> jsstring" where
  "trim s = rev (dropWhile is_space (rev (dropWhile is_space s)))"

subsection \<open>The two regular expressions of \<^verbatim>\<open>cleanText\<close>\<close>

text \<open>
  A backtracking matcher in the list-of-successes style: a pattern maps the input to the
  inputs that remain after each way of matching a prefix, in the order in which a
  backtracking engine tries them (a greedy quantifier tries the longest repetition first).
  The first element, if any, is the match the engine reports.
\<close>

fun star_cls :: "(nat \<Rightarrow> bool) \<Rightarrow> jsstring \<Rightarrow> jsstring list" where
  "star_cls p [] = [[]]"
| "star_cls p (c # cs) = (if p c then star_cls p cs @ [c # cs] else [c # cs])"

definition plus_cls :: "(nat \<Rightarrow> bool) \<Rightarrow> jsstring \<Rightarrow> jsstring list" where
  "plus_cls p s = (case s of [] \<Rightarrow> [] | c # cs \<Rightarrow> if p c then star_cls p cs else [])"

definition lit :: "nat \<Rightarrow> jsstring \<Rightarrow> jsstring list" where
  "lit c s = (case s of [] \<Rightarrow> [] | d # ds \<Rightarrow> if d = c then [ds] else [])"

text \<open>One round of the group \<^verbatim>\<open>(?:[\s,;-]*\d+)\<close>.\<close>

definition group_once :: "jsstring \<Rightarrow> jsstring list" where
  "group_once s = List.bind (star_cls is_sep s) (plus_cls is_digit)"

text \<open>The greedy \<^verbatim>\<open>(?:...)*\<close>: one more round first, then none. A round that consumes
  nothing is not repeated (the rule of the language for quantified groups; a round of this
  group always consumes a digit).\<close>

function group_star :: "jsstring \<Rightarrow> jsstring list" where
  "group_star s =
     List.bind (filter (\<lambda>r. length r < length s) (group_once s)) group_star @ [s]"
  by pat_completeness auto
termination
  by (relation "measure length") auto

declare group_star.simps [simp del]

text \<open>\<^verbatim>\<open>/\[\s*\d+(?:[\s,;-]*\d+)*\s*\]/\<close>, anchored at the head of the input.\<close>

definition citation :: "jsstring \<Rightarrow> jsstring list" where
  "citation s =
     List.bind (List.bind (List.bind (List.bind (List.bind (lit 91 s)
       (star_cls is_space)) (plus_cls is_digit)) group_star) (star_cls is_space)) (lit 93)"

text \<open>
  \<^verbatim>\<open>str.replace(/re/g, rep)\<close> for a replacement without \<^verbatim>\<open>$\<close> patterns: scan from the left;
  where the expression matches, emit \<open>rep\<close> and go on after the match (after one more
  character if the match is empty); elsewhere copy the character.
\<close>

function replaceAll :: "(jsstring \<Rightarrow> jsstring list) \<Rightarrow> jsstring \<Rightarrow> jsstring \<Rightarrow> jsstring" where
  "replaceAll m rep [] = (if m [] = [] then [] else rep)"
| "replaceAll m rep (c # cs) =
     (case m (c # cs) of
        [] \<Rightarrow> c # replaceAll m rep cs
      | r # _ \<Rightarrow> if length r < length (c # cs) then rep @ replaceAll m rep r
                 else rep @ c # replaceAll m rep cs)"
  by pat_completeness auto
termination
  by (relation "measure (\<lambda>(m, rep, s). length s)") auto

declare replaceAll.simps [simp del]

text \<open>
  \<^verbatim>\<open>cleanText\<close> on a string. (The source takes any value and returns the empty string for a
  falsy one; the empty string is the falsy string.)
\<close>

definition cleanText :: "jsstring \<Rightarrow> jsstring" where
  "cleanText text =
     (if text = [] then []
      else trim (replaceAll (plus_cls is_space) [32] (replaceAll citation [] text)))"

text \<open>The normal form the white-space pass produces: every white-space character is a
  single space followed by a character that is not white space.\<close>

fun single_spaced :: "jsstring \<Rightarrow> bool" where
  "single_spaced [] = True"
| "single_spaced [c] = (if is_space c then c = 32 else True)"
| "single_spaced (c # d # r) =
     ((if is_space c then c = 32 \<and> \<not> is_space d else True) \<and> single_spaced (d # r))"

section \<open>Exceptions\<close>

text \<open>
  The outcome of an expression that may throw, and of a promise: a value, or a failure (an
  exception, a rejection). \<open>and_then\<close> is sequencing: what follows a failure is not
  evaluated.
\<close>

datatype 'a outcome = Value 'a | Failure

fun and_then :: "'a outcome \<Rightarrow> ('a \<Rightarrow> 'b outcome) \<Rightarrow> 'b outcome" where
  "and_then (Value v) f = f v"
| "and_then Failure f = Failure"

text \<open>
  The array methods and loops of the source whose callback may throw. \<open>collect\<close> is the
  shape of \<^verbatim>\<open>xs.map(f)\<close>, of a loop that pushes one result per element, and of
  \<^verbatim>\<open>Promise.all\<close> on promises that have settled: the results in order, or a failure.
  \<open>filter_outcome\<close> is \<^verbatim>\<open>xs.filter(p)\<close>, \<open>find_outcome\<close> is \<^verbatim>\<open>xs.find(p)\<close>, which stops at
  the first element that satisfies \<open>p\<close>, and \<open>foldl_outcome\<close> is \<^verbatim>\<open>xs.forEach(f)\<close> for an
  \<open>f\<close> that updates a variable.
\<close>

fun collect :: "'a outcome list \<Rightarrow> 'a list outcome" where
  "collect [] = Value []"
| "collect (Failure # rest) = Failure"
| "collect (Value v # rest) =
     (case collect rest of Value vs \<Rightarrow> Value (v # vs) | Failure \<Rightarrow> Failure)"

fun filter_outcome :: "('a \<Rightarrow> bool outcome) \<Rightarrow> 'a list \<Rightarrow> 'a list outcome" where
  "filter_outcome p [] = Value []"
| "filter_outcome p (x # xs) =
     (case p x of
        Failure \<Rightarrow> Failure
      | Value b \<Rightarrow>
          (case filter_outcome p xs of
             Failure \<Rightarrow> Failure
           | Value ys \<Rightarrow> Value (if b then x # ys else ys)))"

fun find_outcome :: "('a \<Rightarrow> bool outcome) \<Rightarrow> 'a list \<Rightarrow> 'a option outcome" where
  "find_outcome p [] = Value None"
| "find_outcome p (x # xs) =
     (case p x of
        Failure \<Rightarrow> Failure
      | Value b \<Rightarrow> if b then Value (Some x) else find_outcome p xs)"

fun foldl_outcome :: "('b \<Rightarrow> 'a \<Rightarrow> 'b outcome) \<Rightarrow> 'b \<Rightarrow> 'a list \<Rightarrow> 'b outcome" where
  "foldl_outcome f acc [] = Value acc"
| "foldl_outcome f acc (x # xs) =
     (case f acc x of
        Failure \<Rightarrow> Failure
      | Value acc' \<Rightarrow> foldl_outcome f acc' xs)"

section \<open>Values\<close>

text \<open>
  The values a response can hold. A number is a finite value (doubles are rationals; the
  code never computes with a coordinate, it only tests it), not-a-number or an infinity.
  An object is its list of properties, as \<^verbatim>\<open>JSON.parse\<close> builds it: every property is its
  own and none is callable; reading a property takes the first binding. \<open>JFunction\<close> is the
  one value that no response holds and that the code can still come to hold: the builtin
  \<^verbatim>\<open>String.prototype.link\<close>, which is what reading the property \<^verbatim>\<open>link\<close> of a string
  gives.
\<close>

datatype jsnum = Fin real | NaN | PosInf | NegInf

datatype jsval =
    JUndefined
  | JNull
  | JBool bool
  | JNum jsnum
  | JStr jsstring
  | JArr "jsval list"
  | JObj "(jsstring \<times> jsval) list"
  | JFunction

text \<open>Truthiness, as \<^verbatim>\<open>if (v)\<close>, \<^verbatim>\<open>!v\<close> and \<^verbatim>\<open>a || b\<close> read it.\<close>

definition truthy_num :: "jsnum \<Rightarrow> bool" where
  "truthy_num n = (case n of Fin r \<Rightarrow> r \<noteq> 0 | NaN \<Rightarrow> False | PosInf \<Rightarrow> True | NegInf \<Rightarrow> True)"

fun truthy :: "jsval \<Rightarrow> bool" where
  "truthy JUndefined = False"
| "truthy JNull = False"
| "truthy (JBool b) = b"
| "truthy (JNum n) = truthy_num n"
| "truthy (JStr s) = (s \<noteq> [])"
| "truthy (JArr xs) = True"
| "truthy (JObj kvs) = True"
| "truthy JFunction = True"

definition js_or :: "jsval \<Rightarrow> jsval \<Rightarrow> jsval" where
  "js_or a b = (if truthy a then a else b)"

text \<open>
  \<^verbatim>\<open>obj[key]\<close> for the property names the code reads. Of these names, \<^verbatim>\<open>link\<close> is a method
  of every string and \<^verbatim>\<open>name\<close> is a property of every function; none of them is a property
  of an array, of a number, of a boolean or of \<^verbatim>\<open>Object.prototype\<close>. (The code reads a
  property of \<^verbatim>\<open>undefined\<close> or \<^verbatim>\<open>null\<close> only in the address search, which models the
  exception where it arises.)
\<close>

fun js_get :: "jsval \<Rightarrow> jsstring \<Rightarrow> jsval" where
  "js_get (JObj kvs) k = (case map_of kvs k of Some v \<Rightarrow> v | None \<Rightarrow> JUndefined)"
| "js_get (JStr s) k = (if k = js ''link'' then JFunction else JUndefined)"
| "js_get JFunction k = (if k = js ''name'' then JStr (js ''link'') else JUndefined)"
| "js_get v k = JUndefined"

text \<open>
  The builtins of the engine that the code calls and that this development leaves open:
  every theorem below holds for any behaviour of them.
  \<^item> \<open>str_of_num\<close>: \<^verbatim>\<open>String(n)\<close> for a number;
  \<^item> \<open>str_of_function\<close>: \<^verbatim>\<open>String(f)\<close> for the builtin function;
  \<^item> \<open>num_of_str\<close>: \<^verbatim>\<open>Number(s)\<close> for a string;
  \<^item> \<open>toLowerCase\<close>: \<^verbatim>\<open>s.toLowerCase()\<close>;
  \<^item> \<open>JSON_parse\<close>: \<^verbatim>\<open>JSON.parse(s)\<close>, \<open>None\<close> when it throws;
  \<^item> \<open>parseInt10\<close>: \<^verbatim>\<open>parseInt(s, 10)\<close>;
  \<^item> \<open>parseFloat_str\<close>: \<^verbatim>\<open>parseFloat(s)\<close>;
  \<^item> \<open>encodeURIComponent\<close>: \<open>None\<close> when it throws (a lone surrogate).
\<close>

record platform =
  str_of_num :: "jsnum \<Rightarrow> jsstring"
  str_of_function :: jsstring
  num_of_str :: "jsstring \<Rightarrow> jsnum"
  toLowerCase :: "jsstring \<Rightarrow> jsstring"
  JSON_parse :: "jsstring \<Rightarrow> jsval option"
  parseInt10 :: "jsstring \<Rightarrow> jsnum"
  parseFloat_str :: "jsstring \<Rightarrow> jsnum"
  encodeURIComponent :: "jsstring \<Rightarrow> jsstring option"

text \<open>
  \<^verbatim>\<open>String(v)\<close>. An array is its elements joined by commas, with \<^verbatim>\<open>null\<close> and
  \<^verbatim>\<open>undefined\<close> left empty. An object is converted through its \<^verbatim>\<open>toString\<close>, then its
  \<^verbatim>\<open>valueOf\<close>: a parsed object inherits a \<^verbatim>\<open>toString\<close> that gives \<^verbatim>\<open>[object Object]\<close>,
  unless it has a property \<^verbatim>\<open>toString\<close> of its own; that one is not callable, \<^verbatim>\<open>valueOf\<close>,
  its own or inherited, gives no primitive value either, and the conversion throws a
  \<^verbatim>\<open>TypeError\<close>.
\<close>

fun join_with :: "jsstring \<Rightarrow> jsstring list \<Rightarrow> jsstring" where
  "join_with sep [] = []"
| "join_with sep [s] = s"
| "join_with sep (s # t # ts) = s @ sep @ join_with sep (t # ts)"

fun js_String :: "platform \<Rightarrow> jsval \<Rightarrow> jsstring outcome" where
  "js_String P JUndefined = Value (js ''undefined'')"
| "js_String P JNull = Value (js ''null'')"
| "js_String P (JBool b) = Value (if b then js ''true'' else js ''false'')"
| "js_String P (JNum n) = Value (str_of_num P n)"
| "js_String P (JStr s) = Value s"
| "js_String P (JArr xs) =
     (case collect (map (\<lambda>x. if x = JUndefined \<or> x = JNull then Value [] else js_String P x) xs) of
        Failure \<Rightarrow> Failure
      | Value pieces \<Rightarrow> Value (join_with [44] pieces))"
| "js_String P (JObj kvs) =
     (if js ''toString'' \<in> set (map fst kvs) then Failure else Value (js ''[object Object]''))"
| "js_String P JFunction = Value (str_of_function P)"

text \<open>
  \<^verbatim>\<open>Number(v)\<close>. An array and an object are converted through \<^verbatim>\<open>valueOf\<close>, which gives no
  primitive value, then \<^verbatim>\<open>toString\<close>: the number of the string that \<^verbatim>\<open>String(v)\<close> gives,
  and a \<^verbatim>\<open>TypeError\<close> where \<^verbatim>\<open>String(v)\<close> throws one.
\<close>

fun js_Number :: "platform \<Rightarrow> jsval \<Rightarrow> jsnum outcome" where
  "js_Number P JUndefined = Value NaN"
| "js_Number P JNull = Value (Fin 0)"
| "js_Number P (JBool b) = Value (if b then Fin 1 else Fin 0)"
| "js_Number P (JNum n) = Value n"
| "js_Number P (JStr s) = Value (num_of_str P s)"
| "js_Number P v = and_then (js_String P v) (\<lambda>s. Value (num_of_str P s))"


section \<open>Response unwrapper\<close>

text \<open>
  \<^verbatim>\<open>extractData\<close> calls itself on the parsed \<^verbatim>\<open>contents\<close> of a proxy envelope. With
  \<^verbatim>\<open>JSON.parse\<close> left open the recursion need not end, so the function is partial:
  \<open>None\<close> is a call that does not return. The helpers are the tests and the branches of
  the source: \<^verbatim>\<open>Array.isArray\<close>, the elements of an array,
  \<^verbatim>\<open>typeof v === 'object' && v !== null\<close>, \<^verbatim>\<open>Object.keys\<close>, the \<^verbatim>\<open>try\<close> block of
  branch 3 and branch 4.
\<close>

fun isArray :: "jsval \<Rightarrow> bool" where
  "isArray (JArr xs) = True"
| "isArray v = False"

fun elements :: "jsval \<Rightarrow> jsval list" where
  "elements (JArr xs) = xs"
| "elements v = []"

fun isObject :: "jsval \<Rightarrow> bool" where
  "isObject (JObj kvs) = True"
| "isObject (JArr xs) = True"
| "isObject v = False"

fun keys :: "jsval \<Rightarrow> jsstring list" where
  "keys (JObj kvs) = remdups (map fst kvs)"
| "keys v = []"

definition parse_contents :: "platform \<Rightarrow> jsval \<Rightarrow> jsval option" where
  "parse_contents P c = (case c of JStr s \<Rightarrow> JSON_parse P s | _ \<Rightarrow> Some c)"

definition single_record :: "jsval \<Rightarrow> jsval list" where
  "single_record response =
     (if isObject response then
        if truthy (js_get response (js ''site_id'')) \<or> truthy (js_get response (js ''event_id''))
           \<or> truthy (js_get response (js ''person_id'')) \<or> length (keys response) > 0
        then [response] else []
      else [])"

partial_function (option) extractData :: "platform \<Rightarrow> jsval \<Rightarrow> jsval list option" where
  "extractData P response =
     (if \<not> truthy response then Some []
      else if truthy (js_get response (js ''data'')) \<and> isArray (js_get response (js ''data''))
        then Some (elements (js_get response (js ''data'')))
      else if isArray response then Some (elements response)
      else if truthy (js_get response (js ''contents'')) then
        (case parse_contents P (js_get response (js ''contents'')) of
           None \<Rightarrow> Some []
         | Some inner \<Rightarrow> extractData P inner)
      else Some (single_record response))"

section \<open>Field resolver\<close>

text \<open>\<^verbatim>\<open>getProp\<close>: the first candidate key whose value is not \<^verbatim>\<open>undefined\<close>, \<^verbatim>\<open>null\<close>
  or the empty string.\<close>

fun getProp :: "jsval \<Rightarrow> jsstring list \<Rightarrow> jsval" where
  "getProp obj [] = JUndefined"
| "getProp obj (k # ks) =
     (if \<not> truthy obj then JUndefined
      else if js_get obj k \<noteq> JUndefined \<and> js_get obj k \<noteq> JNull \<and> js_get obj k \<noteq> JStr []
        then js_get obj k
      else getProp obj ks)"

text \<open>\<^verbatim>\<open>n || 0\<close> on a number.\<close>

definition num_or_zero :: "jsnum \<Rightarrow> jsnum" where
  "num_or_zero n = (if truthy_num n then n else Fin 0)"

text \<open>\<^verbatim>\<open>cleanText\<close> on any value: \<^verbatim>\<open>if (!text) return ''\<close>, then \<^verbatim>\<open>String(text)\<close>.\<close>

definition cleanText_any :: "platform \<Rightarrow> jsval \<Rightarrow> jsstring outcome" where
  "cleanText_any P text =
     (if \<not> truthy text then Value []
      else and_then (js_String P text) (\<lambda>str. Value (cleanText str)))"

section \<open>Remote fetcher\<close>

text \<open>
  The network answers a URL with the instant at which \<^verbatim>\<open>fetch\<close> settles and with what it
  settles: a network error (which is also what the abort after the time limit gives), or a
  response with its status and the result of \<^verbatim>\<open>response.json()\<close> (\<open>None\<close> when the body
  is not JSON).
\<close>

datatype http = NetworkError | Response nat "jsval option"

type_synonym network = "jsstring \<Rightarrow> nat \<times> http"

definition API_BASE_URL :: jsstring where
  "API_BASE_URL = js ''https://web-production-c3ccb.up.railway.app''"

definition PROXY_LIST :: "jsstring list" where
  "PROXY_LIST =
     [js ''https://corsproxy.io/?'',
      js ''https://api.codetabs.com/v1/proxy?quest='',
      js ''https://api.allorigins.win/get?url='']"

text \<open>
  \<^verbatim>\<open>promiseAny\<close>: rejects on the empty list; resolves with the value of the promise that
  fulfils first (the earlier in the list among those of one instant); rejects when all have
  rejected.
\<close>

fun first_fulfilled :: "(nat \<times> 'a outcome) list \<Rightarrow> (nat \<times> 'a) option" where
  "first_fulfilled [] = None"
| "first_fulfilled ((t, Failure) # ps) = first_fulfilled ps"
| "first_fulfilled ((t, Value v) # ps) =
     (case first_fulfilled ps of
        None \<Rightarrow> Some (t, v)
      | Some (t', v') \<Rightarrow> if t' < t then Some (t', v') else Some (t, v))"

definition promiseAny :: "(nat \<times> 'a outcome) list \<Rightarrow> 'a outcome" where
  "promiseAny promises =
     (if length promises = 0 then Failure
      else case first_fulfilled promises of Some (t, v) \<Rightarrow> Value v | None \<Rightarrow> Failure)"

definition fetchWithRetry :: "network \<Rightarrow> jsstring \<Rightarrow> nat \<times> jsval outcome" where
  "fetchWithRetry net url =
     (case net url of
        (t, NetworkError) \<Rightarrow> (t, Failure)
      | (t, Response status body) \<Rightarrow>
          if \<not> (200 \<le> status \<and> status \<le> 299) then
            if status = 404 then (t, Value JNull) else (t, Failure)
          else (case body of None \<Rightarrow> (t, Failure) | Some json \<Rightarrow> (t, Value json)))"

text \<open>The \<^verbatim>\<open>then\<close> handler of a proxy strategy, and \<^verbatim>\<open>p.then(f)\<close>. \<^verbatim>\<open>JSON.parse\<close> converts
  its argument to a string first; the \<^verbatim>\<open>catch\<close> of the handler takes an exception of the
  conversion as it takes one of the parser.\<close>

definition unwrap_proxy :: "platform \<Rightarrow> jsval \<Rightarrow> jsval" where
  "unwrap_proxy P json =
     (if truthy json \<and> truthy (js_get json (js ''contents'')) then
        (case js_String P (js_get json (js ''contents'')) of
           Failure \<Rightarrow> js_get json (js ''contents'')
         | Value text \<Rightarrow>
             (case JSON_parse P text of
                Some v \<Rightarrow> v
              | None \<Rightarrow> js_get json (js ''contents'')))
      else json)"

fun then_map :: "('a \<Rightarrow> 'b) \<Rightarrow> nat \<times> 'a outcome \<Rightarrow> nat \<times> 'b outcome" where
  "then_map f (t, Value v) = (t, Value (f v))"
| "then_map f (t, Failure) = (t, Failure)"

text \<open>
  \<^verbatim>\<open>fetchFromApi\<close>. The strategies are started inside the \<^verbatim>\<open>try\<close> block, so an exception
  of \<^verbatim>\<open>encodeURIComponent\<close> is caught as a rejection of the race is.
\<close>

definition fetchFromApi :: "platform \<Rightarrow> network \<Rightarrow> jsstring \<Rightarrow> jsval outcome" where
  "fetchFromApi P net endpoint =
     (let directUrl = API_BASE_URL @ endpoint in
      case encodeURIComponent P directUrl of
        None \<Rightarrow> Value (JArr [])
      | Some enc \<Rightarrow>
          (case promiseAny
                  (fetchWithRetry net directUrl #
                   map (\<lambda>createUrl. then_map (unwrap_proxy P) (fetchWithRetry net (createUrl @ enc)))
                     PROXY_LIST) of
             Value v \<Rightarrow> Value v
           | Failure \<Rightarrow> Value (JArr [])))"

section \<open>Mappers\<close>

text \<open>The Vietnamese literals of the mappers, as code units: the site type of a city, the
  default site name, the default site type, and the key under which an
  \<^verbatim>\<open>additional_info\<close> that is not a JSON object is kept.\<close>

definition thanh_pho :: jsstring where
  "thanh_pho = [84, 104, 224, 110, 104, 32, 112, 104, 7889]"

definition khong_ten :: jsstring where
  "khong_ten = [75, 104, 244, 110, 103, 32, 116, 234, 110]"

definition di_tich :: jsstring where
  "di_tich = [68, 105, 32, 116, 237, 99, 104]"

definition thong_tin :: jsstring where
  "thong_tin = [84, 104, 244, 110, 103, 32, 116, 105, 110]"

text \<open>A site. The fields hold what the mapper puts there: a value of the record mapped, a
  default, or \<^verbatim>\<open>undefined\<close> for a field that is absent.\<close>

record site =
  site_id :: jsval
  site_name :: jsval
  site_type :: jsval
  latitude :: jsnum
  longitude :: jsnum
  address :: jsval
  description :: jsstring
  established_year :: jsval
  status :: jsval
  city_id :: jsval
  additional_info :: jsval

text \<open>\<^verbatim>\<open>parseAdditionalInfo\<close>: the \<^verbatim>\<open>catch\<close> takes an exception of the conversion to a string
  as it takes one of the parser.\<close>

definition parseAdditionalInfo :: "platform \<Rightarrow> jsval \<Rightarrow> jsval" where
  "parseAdditionalInfo P infoStr =
     (if \<not> truthy infoStr then JUndefined
      else case js_String P infoStr of
        Failure \<Rightarrow> JObj [(thong_tin, infoStr)]
      | Value text \<Rightarrow>
          (case JSON_parse P text of
             Some parsed \<Rightarrow> if isObject parsed then parsed else JObj [(thong_tin, infoStr)]
           | None \<Rightarrow> JObj [(thong_tin, infoStr)]))"

text \<open>\<^verbatim>\<open>mapSite\<close>, with its city branch first. It throws where \<^verbatim>\<open>Number\<close>, \<^verbatim>\<open>String\<close> or
  \<^verbatim>\<open>cleanText\<close> does.\<close>

definition mapSite :: "platform \<Rightarrow> jsval \<Rightarrow> site outcome" where
  "mapSite P item =
     (let cityName = getProp item [js ''city_name''] in
      if truthy cityName \<and> \<not> truthy (getProp item [js ''site_type'']) then
        (let cityId = getProp item [js ''city_id'', js ''id''] in
         and_then (js_Number P (getProp item [js ''lat'', js ''latitude''])) (\<lambda>lat.
         and_then (js_Number P (getProp item [js ''lng'', js ''longitude''])) (\<lambda>lng.
         and_then (js_String P cityId) (\<lambda>cityIdStr.
         Value
           \<lparr> site_id = cityId,
             site_name = cityName,
             site_type = JStr thanh_pho,
             latitude = num_or_zero lat,
             longitude = num_or_zero lng,
             address = JStr [],
             description = [],
             established_year = JUndefined,
             status = JUndefined,
             city_id = cityId,
             additional_info = JObj [(js ''City ID'', JStr cityIdStr)] \<rparr>))))
      else
        (let siteId = getProp item [js ''site_id'', js ''id''];
             infoStr = getProp item [js ''additional_info'', js ''info''];
             info = js_or (parseAdditionalInfo P infoStr) (JObj []);
             desc = getProp item [js ''site_description'', js ''description'', js ''desc'',
                                  js ''summary'', js ''content'']
         in
         and_then (js_Number P (getProp item [js ''latitude'', js ''lat''])) (\<lambda>lat.
         and_then (js_Number P (getProp item [js ''longitude'', js ''lng'', js ''long''])) (\<lambda>lng.
         and_then (cleanText_any P desc) (\<lambda>cleaned.
         Value
           \<lparr> site_id = siteId,
             site_name = js_or (getProp item [js ''site_name'', js ''name'']) (JStr khong_ten),
             site_type = js_or (getProp item [js ''site_type'', js ''type'']) (JStr di_tich),
             latitude = num_or_zero lat,
             longitude = num_or_zero lng,
             address = js_or (getProp item [js ''address'', js ''addr'']) (JStr []),
             description = cleaned,
             established_year = getProp item [js ''established_year'', js ''year''],
             status = getProp item [js ''status''],
             city_id = getProp item [js ''city_id''],
             additional_info = info \<rparr>)))))"

section \<open>Site orchestrator\<close>

text \<open>
  The orchestrators are stated over the function they await, \<^verbatim>\<open>fetchFromApi\<close>.
\<close>

type_synonym api = "jsstring \<Rightarrow> jsval outcome"


definition push_site :: "platform \<Rightarrow> site list \<Rightarrow> jsval \<Rightarrow> site list outcome" where
  "push_site P mappedSites item =
     and_then (mapSite P item) (\<lambda>site.
       Value (if truthy_num (latitude site) \<and> truthy_num (longitude site)
              then mappedSites @ [site] else mappedSites))"

definition push_city :: "platform \<Rightarrow> site list \<Rightarrow> jsval \<Rightarrow> site list outcome" where
  "push_city P mappedSites item =
     and_then (mapSite P item) (\<lambda>citySite.
       if truthy_num (latitude citySite) \<and> truthy_num (longitude citySite) then
         and_then
           (find_outcome
              (\<lambda>s. and_then (js_String P (site_id s)) (\<lambda>a.
                   and_then (js_String P (site_id citySite)) (\<lambda>b.
                   Value (a = b \<and> site_type s = JStr thanh_pho))))
              mappedSites)
           (\<lambda>found. Value (case found of None \<Rightarrow> mappedSites @ [citySite]
                                         | Some s \<Rightarrow> mappedSites))
       else Value mappedSites)"

text \<open>
  The \<^verbatim>\<open>try\<close> block of \<^verbatim>\<open>fetchSites\<close>, up to the assignment to the cache: the list
  mapped, or a failure when a request rejects or a record makes a conversion throw.
\<close>

definition fetchSites_body :: "platform \<Rightarrow> api \<Rightarrow> site list outcome option" where
  "fetchSites_body P api =
     (case collect [api (js ''/locations''), api (js ''/cities'')] of
        Value [sitesRes, citiesRes] \<Rightarrow>
          (case extractData P sitesRes of
             None \<Rightarrow> None
           | Some sitesData \<Rightarrow>
             (case extractData P citiesRes of
                None \<Rightarrow> None
              | Some citiesData \<Rightarrow>
                  Some (and_then
                          (if length sitesData > 0 then foldl_outcome (push_site P) [] sitesData
                           else Value [])
                          (\<lambda>mapped. if length citiesData > 0
                                     then foldl_outcome (push_city P) mapped citiesData
                                     else Value mapped))))
      | _ \<Rightarrow> Some Failure)"

text \<open>
  \<^verbatim>\<open>fetchSites\<close>: the list it resolves with and the new content of \<^verbatim>\<open>globalSiteCache\<close>.
  The cache is assigned at the end of the \<^verbatim>\<open>try\<close> block; the \<^verbatim>\<open>catch\<close> branch returns the
  empty list.
\<close>

definition fetchSites :: "platform \<Rightarrow> api \<Rightarrow> site list \<Rightarrow> (site list \<times> site list) option" where
  "fetchSites P api globalSiteCache =
     (case fetchSites_body P api of
        None \<Rightarrow> None
      | Some (Value mappedSites) \<Rightarrow> Some (mappedSites, mappedSites)
      | Some Failure \<Rightarrow> Some ([], globalSiteCache))"

section \<open>Reference data store\<close>

text \<open>
  A \<^verbatim>\<open>Map\<close> with string keys is its entries in insertion order: setting a key that is
  present replaces the value in place, setting a new key appends the entry.
\<close>

type_synonym jsmap = "(jsstring \<times> jsval) list"

definition new_Map :: "(jsstring \<times> jsval) list \<Rightarrow> jsmap" where
  "new_Map entries = foldl (\<lambda>m (k, v). AList.update k v m) [] entries"


text \<open>A \<^verbatim>\<open>Set\<close> of strings is its elements in insertion order.\<close>

definition Set_add :: "jsstring list \<Rightarrow> jsstring \<Rightarrow> jsstring list" where
  "Set_add s x = (if x \<in> set s then s else s @ [x])"


record refData =
  mediaMap :: jsmap
  eventMediaRelations :: "jsval list"
  personEventRelations :: "jsval list"
  personMap :: jsmap
  eventsCache :: "jsval list"
  isLoaded :: bool
  isLoading :: bool

definition initial_refData :: refData where
  "initial_refData =
     \<lparr> mediaMap = [], eventMediaRelations = [], personEventRelations = [], personMap = [],
       eventsCache = [], isLoaded = False, isLoading = False \<rparr>"

text \<open>\<^verbatim>\<open>String(getProp(r, keys)).trim()\<close>, the form of every join key, and the entries
  from which a map of records is built.\<close>

definition key_of :: "platform \<Rightarrow> jsval \<Rightarrow> jsstring list \<Rightarrow> jsstring outcome" where
  "key_of P r ks = and_then (js_String P (getProp r ks)) (\<lambda>s. Value (trim s))"

definition keyed :: "platform \<Rightarrow> jsstring list \<Rightarrow> jsval list \<Rightarrow> (jsstring \<times> jsval) list outcome" where
  "keyed P ks records = collect (map (\<lambda>r. and_then (key_of P r ks) (\<lambda>k. Value (k, r))) records)"

definition reference_endpoints :: "jsstring list" where
  "reference_endpoints =
     [js ''/media'', js ''/event_media'', js ''/person_event'', js ''/persons'', js ''/event'']"

text \<open>
  The \<^verbatim>\<open>try\<close> block after the \<^verbatim>\<open>await\<close>, on the five responses, with the \<^verbatim>\<open>catch\<close> and
  the \<^verbatim>\<open>finally\<close>. The fields are assigned one after the other: when a key of a media
  record throws nothing has been assigned, when a key of a person record throws the media
  map, the join tables and the events have.
\<close>

definition store_reference ::
  "platform \<Rightarrow> refData \<Rightarrow> jsval \<Rightarrow> jsval \<Rightarrow> jsval \<Rightarrow> jsval \<Rightarrow> jsval \<Rightarrow> refData option" where
  "store_reference P refData mediaRes eventMediaRes personEventRes personsRes eventsRes =
     (case extractData P mediaRes of None \<Rightarrow> None | Some allMedia \<Rightarrow>
      case keyed P [js ''media_key'', js ''media_id''] allMedia of
        Failure \<Rightarrow> Some (refData\<lparr>isLoading := False\<rparr>)
      | Value mediaEntries \<Rightarrow>
      case extractData P eventMediaRes of None \<Rightarrow> None | Some eventMedia \<Rightarrow>
      case extractData P personEventRes of None \<Rightarrow> None | Some personEvent \<Rightarrow>
      case extractData P eventsRes of None \<Rightarrow> None | Some events \<Rightarrow>
      case extractData P personsRes of None \<Rightarrow> None | Some allPersons \<Rightarrow>
      case keyed P [js ''person_key'', js ''person_id''] allPersons of
        Failure \<Rightarrow>
          Some (refData
            \<lparr> mediaMap := new_Map mediaEntries,
              eventMediaRelations := eventMedia,
              personEventRelations := personEvent,
              eventsCache := events,
              isLoading := False \<rparr>)
      | Value personEntries \<Rightarrow>
          Some (refData
            \<lparr> mediaMap := new_Map mediaEntries,
              eventMediaRelations := eventMedia,
              personEventRelations := personEvent,
              personMap := new_Map personEntries,
              eventsCache := events,
              isLoaded := True,
              isLoading := False \<rparr>))"

text \<open>
  \<^verbatim>\<open>ensureReferenceDataLoaded\<close>: the new store and the endpoints it has asked
  \<^verbatim>\<open>fetchFromApi\<close> for, in order. While the five requests are awaited the store is the old
  one with \<^verbatim>\<open>isLoading\<close> set; the function as a whole is its effect once they have settled.
\<close>

definition ensureReferenceDataLoaded ::
  "platform \<Rightarrow> api \<Rightarrow> refData \<Rightarrow> (refData \<times> jsstring list) option" where
  "ensureReferenceDataLoaded P api refData =
     (if isLoaded refData \<or> isLoading refData then Some (refData, [])
      else
        (case collect (map api reference_endpoints) of
           Value [mediaRes, eventMediaRes, personEventRes, personsRes, eventsRes] \<Rightarrow>
             (case store_reference P (refData\<lparr>isLoading := True\<rparr>)
                     mediaRes eventMediaRes personEventRes personsRes eventsRes of
                None \<Rightarrow> None
              | Some loaded \<Rightarrow> Some (loaded, reference_endpoints))
         | _ \<Rightarrow> Some (refData\<lparr>isLoading := False\<rparr>, reference_endpoints)))"

section \<open>Person mapper and event hydrator\<close>


record person =
  person_id :: jsval
  full_name :: jsval
  birth_year :: "jsnum option"
  death_year :: "jsnum option"
  related_city_ids :: "jsstring list option"
  person_latitude :: "jsnum option"
  person_longitude :: "jsnum option"
  location_name :: "jsval option"

record media_item =
  media_id :: jsval
  media_url :: jsval
  media_type :: jsstring
  caption :: jsval


text \<open>\<^verbatim>\<open>parseYear\<close> of \<^verbatim>\<open>mapPerson\<close>, and \<^verbatim>\<open>mapPerson\<close>. The fields that
  \<^verbatim>\<open>fetchPersons\<close> assigns later start absent.\<close>

definition parseYear :: "platform \<Rightarrow> jsval \<Rightarrow> jsnum option" where
  "parseYear P val =
     (case val of
        JNum n \<Rightarrow> Some n
      | JStr s \<Rightarrow>
          if trim s \<noteq> [] then
            (if parseInt10 P s = NaN then None else Some (parseInt10 P s))
          else None
      | _ \<Rightarrow> None)"

definition mapPerson :: "platform \<Rightarrow> jsval \<Rightarrow> person" where
  "mapPerson P item =
     (let bYear = getProp item [js ''birth_year'', js ''birth''];
          dYear = getProp item [js ''death_year'', js ''death'']
      in
      \<lparr> person_id = getProp item [js ''person_id'', js ''id''],
        full_name =
          js_or (getProp item [js ''full_name'', js ''person_name'', js ''name'']) (JStr khong_ten),
        birth_year = parseYear P bYear,
        death_year = parseYear P dYear,
        related_city_ids = None,
        person_latitude = None,
        person_longitude = None,
        location_name = None \<rparr>)"

text \<open>The object built from a media record (the last \<^verbatim>\<open>map\<close> of the media join).\<close>

definition map_media :: "jsval \<Rightarrow> media_item" where
  "map_media m =
     \<lparr> media_id = getProp m [js ''media_id'', js ''id''],
       media_url = js_or (getProp m [js ''media_url'', js ''url'', js ''link'']) (JStr []),
       media_type =
         (if getProp m [js ''media_type'', js ''type''] = JStr (js ''video'')
             \<or> getProp m [js ''media_type''] = JStr (js ''youtube'')
          then js ''video'' else js ''image''),
       caption = js_or (getProp m [js ''caption'', js ''event_name'', js ''title'']) (JStr []) \<rparr>"







section \<open>Person location resolver\<close>

text \<open>The four phrases of the biography test (born at, born in, person of, home town), as
  code units.\<close>

definition sinh_tai :: jsstring where
  "sinh_tai = [115, 105, 110, 104, 32, 116, 7841, 105]"

definition sinh_o :: jsstring where
  "sinh_o = [115, 105, 110, 104, 32, 7903]"

definition nguoi :: jsstring where
  "nguoi = [110, 103, 432, 7901, 105]"

definition que :: jsstring where
  "que = [113, 117, 234]"

text \<open>
  \<^verbatim>\<open>[...sites].sort((a, b) => b.site_name.length - a.site_name.length)\<close>: a stable sort,
  longest name first. Sorting two sites or more reads the \<^verbatim>\<open>length\<close> of every name, which
  throws on \<^verbatim>\<open>undefined\<close> and \<^verbatim>\<open>null\<close>. The length of any other name that is not a string
  plays no part: on such a name the scan below throws for every person, whatever the order.
\<close>

definition name_length :: "site \<Rightarrow> nat" where
  "name_length s = (case site_name s of JStr name \<Rightarrow> length name | _ \<Rightarrow> 0)"

definition searchableSites :: "site list \<Rightarrow> site list" where
  "searchableSites sites = sort_key (\<lambda>s. - int (name_length s)) sites"

definition sort_sites :: "site list \<Rightarrow> site list outcome" where
  "sort_sites sites =
     (if 2 \<le> length sites \<and> list_ex (\<lambda>s. site_name s = JUndefined \<or> site_name s = JNull) sites
      then Failure else Value (searchableSites sites))"

subsection \<open>Strategy A: cities of the linked events\<close>

text \<open>The event keys that the join table relates to the person, the body of the loop over
  the cached events, and the related cities the loop leaves.\<close>

definition linkedEventKeys ::
  "platform \<Rightarrow> refData \<Rightarrow> jsstring \<Rightarrow> jsstring \<Rightarrow> jsstring list outcome" where
  "linkedEventKeys P refData pKey pId =
     and_then
       (filter_outcome
          (\<lambda>r. and_then (key_of P r [js ''person_key'', js ''person_id''])
                 (\<lambda>k. Value (k = pKey \<or> k = pId)))
          (personEventRelations refData))
       (\<lambda>rows. collect (map (\<lambda>r. key_of P r [js ''event_key'', js ''event_id'']) rows))"

definition link_event ::
  "platform \<Rightarrow> site list \<Rightarrow> jsstring \<Rightarrow> jsstring list \<Rightarrow> jsstring list \<Rightarrow> jsval
     \<Rightarrow> jsstring list outcome" where
  "link_event P sites pKey linked relatedCityIds evt =
     and_then (key_of P evt [js ''event_key'', js ''id'']) (\<lambda>eKey.
     and_then (key_of P evt [js ''main_person_key'']) (\<lambda>mainPersonKey.
     if eKey \<in> set linked \<or> mainPersonKey = pKey then
       (let siteId = getProp evt [js ''site_id'', js ''site_key'', js ''location_id''] in
        if truthy siteId then
          and_then
            (find_outcome
               (\<lambda>s. and_then (js_String P (site_id s)) (\<lambda>a.
                    and_then (js_String P siteId) (\<lambda>b. Value (a = b))))
               sites)
            (\<lambda>found.
               case found of
                 None \<Rightarrow> Value relatedCityIds
               | Some site \<Rightarrow>
                   and_then
                     (if truthy (city_id site)
                      then and_then (js_String P (city_id site))
                             (\<lambda>c. Value (Set_add relatedCityIds c))
                      else Value relatedCityIds)
                     (\<lambda>ids. if site_type site = JStr thanh_pho
                             then and_then (js_String P (site_id site))
                                    (\<lambda>i. Value (Set_add ids i))
                             else Value ids))
        else Value relatedCityIds)
     else Value relatedCityIds))"

definition strategyA :: "platform \<Rightarrow> refData \<Rightarrow> site list \<Rightarrow> jsval \<Rightarrow> jsstring list outcome" where
  "strategyA P refData sites rawPerson =
     and_then (key_of P rawPerson [js ''person_key'', js ''id'']) (\<lambda>pKey.
     and_then (key_of P rawPerson [js ''person_id'', js ''id'']) (\<lambda>pId.
     and_then (linkedEventKeys P refData pKey pId) (\<lambda>linked.
     foldl_outcome (link_event P sites pKey linked) [] (eventsCache refData))))"

subsection \<open>Strategy B: site names in the texts of the person\<close>

text \<open>The two texts searched (\<^verbatim>\<open>join\<close> converts the values that \<^verbatim>\<open>filter(Boolean)\<close> keeps),
  and the test of one site name against them.\<close>

definition textToSearch :: "platform \<Rightarrow> jsval \<Rightarrow> jsstring outcome" where
  "textToSearch P rawPerson =
     (let birthplace = getProp rawPerson [js ''birthplace'', js ''birth_place'',
                                          js ''place_of_birth'', js ''hometown''];
          queQuan = getProp rawPerson [js ''address'', js ''que_quan'']
      in and_then (collect (map (js_String P) (filter truthy [birthplace, queQuan])))
           (\<lambda>pieces. Value (toLowerCase P (join_with [32] pieces))))"

definition bioToSearch :: "platform \<Rightarrow> jsval \<Rightarrow> jsstring outcome" where
  "bioToSearch P rawPerson =
     (let bio = getProp rawPerson [js ''biography'', js ''bio'', js ''description'']
      in if truthy bio then and_then (js_String P bio) (\<lambda>s. Value (toLowerCase P s))
         else Value [])"

definition isMatch :: "jsstring \<Rightarrow> jsstring \<Rightarrow> jsstring \<Rightarrow> bool" where
  "isMatch text bio siteName =
     (if js_includes text siteName then True
      else if js_includes bio (sinh_tai @ [32] @ siteName)
              \<or> js_includes bio (sinh_o @ [32] @ siteName)
              \<or> js_includes bio (nguoi @ [32] @ siteName)
              \<or> js_includes bio (que @ [32] @ siteName)
        then True
      else False)"

text \<open>One round of the loop over the sorted sites, on the related cities and the map
  location found so far. \<^verbatim>\<open>toLowerCase\<close> on a name that is not a string throws.\<close>

definition scan_site ::
  "platform \<Rightarrow> jsstring \<Rightarrow> jsstring \<Rightarrow> jsstring list \<times> site option \<Rightarrow> site
     \<Rightarrow> (jsstring list \<times> site option) outcome" where
  "scan_site P text bio st site =
     (case site_name site of
        JStr name \<Rightarrow>
          (let siteName = toLowerCase P name in
           if length siteName < 3 then Value st
           else if isMatch text bio siteName then
             and_then
               (if site_type site = JStr thanh_pho
                  then and_then (js_String P (site_id site)) (\<lambda>i. Value (Set_add (fst st) i))
                else if truthy (city_id site)
                  then and_then (js_String P (city_id site)) (\<lambda>c. Value (Set_add (fst st) c))
                else Value (fst st))
               (\<lambda>ids. Value (ids, if snd st = None then Some site else snd st))
           else Value st)
      | _ \<Rightarrow> Failure)"

definition scan_sites ::
  "platform \<Rightarrow> jsstring \<Rightarrow> jsstring \<Rightarrow> site list \<Rightarrow> jsstring list \<times> site option
     \<Rightarrow> (jsstring list \<times> site option) outcome" where
  "scan_sites P text bio searchable st = foldl_outcome (scan_site P text bio) st searchable"

text \<open>The end of the loop body: the related cities, then the coordinates.\<close>

definition assign_location ::
  "platform \<Rightarrow> site list \<Rightarrow> person \<Rightarrow> jsstring list \<Rightarrow> site option \<Rightarrow> person outcome" where
  "assign_location P sites person relatedCityIds mapLocation =
     (let person = person\<lparr>related_city_ids := Some relatedCityIds\<rparr> in
      case mapLocation of
        Some loc \<Rightarrow>
          Value (person\<lparr>person_latitude := Some (latitude loc),
                        person_longitude := Some (longitude loc),
                        location_name := Some (site_name loc)\<rparr>)
      | None \<Rightarrow>
          (case relatedCityIds of
             [] \<Rightarrow> Value person
           | firstCityId # others \<Rightarrow>
               and_then
                 (find_outcome
                    (\<lambda>s. and_then (js_String P (site_id s)) (\<lambda>a.
                         and_then (js_String P (JStr firstCityId)) (\<lambda>b. Value (a = b))))
                    sites)
                 (\<lambda>found.
                    Value (case found of
                             Some citySite \<Rightarrow>
                               person\<lparr>person_latitude := Some (latitude citySite),
                                      person_longitude := Some (longitude citySite),
                                      location_name := Some (site_name citySite)\<rparr>
                           | None \<Rightarrow> person))))"

text \<open>The body of the loop over the persons.\<close>

definition locatePerson ::
  "platform \<Rightarrow> refData \<Rightarrow> site list \<Rightarrow> site list \<Rightarrow> jsval \<Rightarrow> person outcome" where
  "locatePerson P refData sites searchable rawPerson =
     and_then (strategyA P refData sites rawPerson) (\<lambda>related.
     and_then (textToSearch P rawPerson) (\<lambda>text.
     and_then (bioToSearch P rawPerson) (\<lambda>bio.
     and_then (scan_sites P text bio searchable (related, None)) (\<lambda>found.
     assign_location P sites (mapPerson P rawPerson) (fst found) (snd found)))))"

text \<open>The sites \<^verbatim>\<open>fetchPersons\<close> works with: the site cache, or the mapped locations when
  the cache is empty. \<open>None\<close> is a call that does not return, \<open>Failure\<close> a rejected
  request or a record on which the mapper throws.\<close>

definition sites_for_persons :: "platform \<Rightarrow> api \<Rightarrow> site list \<Rightarrow> site list outcome option" where
  "sites_for_persons P api globalSiteCache =
     (if length globalSiteCache = 0 then
        (case api (js ''/locations'') of
           Failure \<Rightarrow> Some Failure
         | Value sitesRes \<Rightarrow>
             (case extractData P sitesRes of
                None \<Rightarrow> None
              | Some sitesData \<Rightarrow> Some (collect (map (mapSite P) sitesData))))
      else Some (Value globalSiteCache))"

text \<open>\<^verbatim>\<open>fetchPersons\<close>: the list it resolves with, the reference store and the person
  cache after the call.\<close>

definition fetchPersons ::
  "platform \<Rightarrow> api \<Rightarrow> refData \<Rightarrow> site list \<Rightarrow> person list
     \<Rightarrow> (person list \<times> refData \<times> person list) option" where
  "fetchPersons P api refData globalSiteCache globalPersonCache =
     (case ensureReferenceDataLoaded P api refData of
        None \<Rightarrow> None
      | Some (refData', requested) \<Rightarrow>
          (case sites_for_persons P api globalSiteCache of
             None \<Rightarrow> None
           | Some Failure \<Rightarrow> Some ([], refData', globalPersonCache)
           | Some (Value sites) \<Rightarrow>
               (case and_then (sort_sites sites) (\<lambda>searchable.
                       collect (map (locatePerson P refData' sites searchable)
                                  (map snd (personMap refData')))) of
                  Failure \<Rightarrow> Some ([], refData', globalPersonCache)
                | Value persons \<Rightarrow> Some (persons, refData', persons))))"

section \<open>Geocoding adapter\<close>

text \<open>A result of the address search: name, address, and the pair of coordinates.\<close>

record address_result =
  result_name :: jsstring
  result_address :: jsstring
  result_coordinates :: "jsnum \<times> jsnum"

text \<open>
  The function passed to \<^verbatim>\<open>data.map\<close>. \<^verbatim>\<open>item.display_name.split(',')\<close> throws unless
  \<^verbatim>\<open>item\<close> is an object whose \<^verbatim>\<open>display_name\<close> is a string; the first piece of the split
  is the text before the first comma. \<^verbatim>\<open>parseFloat\<close> converts its argument to a string.
\<close>

definition map_address_item :: "platform \<Rightarrow> jsval \<Rightarrow> address_result outcome" where
  "map_address_item P item =
     (case item of
        JObj kvs \<Rightarrow>
          (case js_get item (js ''display_name'') of
             JStr display_name \<Rightarrow>
               and_then (js_String P (js_get item (js ''lat''))) (\<lambda>lat.
               and_then (js_String P (js_get item (js ''lon''))) (\<lambda>lon.
               Value \<lparr> result_name = takeWhile (\<lambda>c. c \<noteq> 44) display_name,
                       result_address = display_name,
                       result_coordinates = (parseFloat_str P lat, parseFloat_str P lon) \<rparr>))
           | _ \<Rightarrow> Failure)
      | _ \<Rightarrow> Failure)"

definition nominatim_search_url :: "jsstring \<Rightarrow> jsstring" where
  "nominatim_search_url q =
     js ''https://nominatim.openstreetmap.org/search?format=json&q='' @ q
       @ js ''&limit=5&countrycodes=vn''"

text \<open>
  \<^verbatim>\<open>searchAddress\<close>: the list it resolves with and the URLs it has requested. Every
  exception of the \<^verbatim>\<open>try\<close> block (of \<^verbatim>\<open>encodeURIComponent\<close>, of \<^verbatim>\<open>fetch\<close>, a response
  that is not ok, a body that is not JSON, data that are not an array, an item that throws)
  ends in the \<^verbatim>\<open>catch\<close> branch, which returns the empty list.
\<close>

definition searchAddress ::
  "platform \<Rightarrow> network \<Rightarrow> jsstring \<Rightarrow> address_result list \<times> jsstring list" where
  "searchAddress P net query =
     (if query = [] \<or> length query < 3 then ([], [])
      else
        (case encodeURIComponent P query of
           None \<Rightarrow> ([], [])
         | Some q \<Rightarrow>
             (case snd (net (nominatim_search_url q)) of
                NetworkError \<Rightarrow> ([], [nominatim_search_url q])
              | Response code body \<Rightarrow>
                  if \<not> (200 \<le> code \<and> code \<le> 299) then ([], [nominatim_search_url q])
                  else
                    (case body of
                       None \<Rightarrow> ([], [nominatim_search_url q])
                     | Some data \<Rightarrow>
                         if isArray data then
                           (case collect (map (map_address_item P) (elements data)) of
                              Value results \<Rightarrow> (results, [nominatim_search_url q])
                            | Failure \<Rightarrow> ([], [nominatim_search_url q]))
                         else ([], [nominatim_search_url q])))))"
chapter \<open>Predicates and examples\<close>

text \<open>
  The notions in which the properties are stated, written from the description of the
  service layer and not taken from the functions above, and the records on which the
  functions are evaluated.
\<close>

section \<open>A platform for the examples\<close>

text \<open>
  The texts of the examples hold no capital letter outside ASCII, so lower-casing the ASCII
  letters is \<^verbatim>\<open>toLowerCase\<close> on them; the examples apply no conversion between numbers
  and strings, print no function, parse no JSON text and encode no reserved character, so
  the other builtins are not consulted (numbers print as nothing and nothing parses).
\<close>

definition ascii_lower :: "nat \<Rightarrow> nat" where
  "ascii_lower c = (if 65 \<le> c \<and> c \<le> 90 then c + 32 else c)"

definition example_platform :: platform where
  "example_platform =
     \<lparr> str_of_num = (\<lambda>n. []),
       str_of_function = [],
       num_of_str = (\<lambda>s. NaN),
       toLowerCase = map ascii_lower,
       JSON_parse = (\<lambda>s. None),
       parseInt10 = (\<lambda>s. NaN),
       parseFloat_str = (\<lambda>s. NaN),
       encodeURIComponent = Some \<rparr>"

section \<open>For the fetcher and the site orchestrator\<close>

text \<open>The direct fetch and the fetch of every proxy strategy reject.\<close>

definition all_strategies_reject :: "platform \<Rightarrow> network \<Rightarrow> jsstring \<Rightarrow> bool" where
  "all_strategies_reject P net endpoint =
     (snd (fetchWithRetry net (API_BASE_URL @ endpoint)) = Failure
      \<and> (case encodeURIComponent P (API_BASE_URL @ endpoint) of
           None \<Rightarrow> True
         | Some enc \<Rightarrow>
             list_all (\<lambda>createUrl. snd (fetchWithRetry net (createUrl @ enc)) = Failure)
               PROXY_LIST))"

text \<open>A network on which every request fails, and a network that answers every request
  at once: the direct request for the locations and the direct request for the cities with
  the given JSON bodies, any other request with the empty array.\<close>

definition offline :: network where
  "offline url = (0, NetworkError)"

definition serving :: "jsval \<Rightarrow> jsval \<Rightarrow> network" where
  "serving locations cities url =
     (0, Response 200
           (Some (if url = API_BASE_URL @ js ''/locations'' then locations
                  else if url = API_BASE_URL @ js ''/cities'' then cities
                  else JArr [])))"



text \<open>
  Two location records, the first in the city \<^verbatim>\<open>c1\<close>, the second at (0,0), the site the
  first is mapped to, the record of that city and the site it is mapped to, and an API that
  serves the two locations and the city twice.
\<close>

definition example_site_raw :: jsval where
  "example_site_raw =
     JObj [(js ''site_id'', JStr (js ''s1'')), (js ''site_name'', JStr (js ''Citadel'')),
           (js ''city_id'', JStr (js ''c1'')),
           (js ''latitude'', JNum (Fin 16.4637)), (js ''longitude'', JNum (Fin 107.5909))]"


definition example_site :: site where
  "example_site =
     \<lparr> site_id = JStr (js ''s1''), site_name = JStr (js ''Citadel''), site_type = JStr di_tich,
       latitude = Fin 16.4637, longitude = Fin 107.5909, address = JStr [], description = [],
       established_year = JUndefined, status = JUndefined, city_id = JStr (js ''c1''),
       additional_info = JObj [] \<rparr>"


definition example_city :: site where
  "example_city =
     \<lparr> site_id = JStr (js ''c1''), site_name = JStr (js ''Hue''), site_type = JStr thanh_pho,
       latitude = Fin 16.4619, longitude = Fin 107.5955, address = JStr [], description = [],
       established_year = JUndefined, status = JUndefined, city_id = JStr (js ''c1''),
       additional_info = JObj [(js ''City ID'', JStr (js ''c1''))] \<rparr>"





text \<open>A location record whose latitude is an object with a property \<^verbatim>\<open>toString\<close>, as the
  JSON text \<^verbatim>\<open>{"toString": 1}\<close> gives.\<close>

definition throwing_site_raw :: jsval where
  "throwing_site_raw =
     JObj [(js ''site_id'', JStr (js ''s3'')), (js ''site_name'', JStr (js ''Pagoda'')),
           (js ''latitude'', JObj [(js ''toString'', JNum (Fin 1))]),
           (js ''longitude'', JNum (Fin 107.5909))]"

section \<open>For the hydrator\<close>



section \<open>For the person location resolver\<close>

text \<open>The text of a value whose conversion does not throw.\<close>

definition printed :: "platform \<Rightarrow> jsval \<Rightarrow> jsstring" where
  "printed P v = (case js_String P v of Value s \<Rightarrow> s | Failure \<Rightarrow> [])"

text \<open>
  The place text of a person record: the birthplace, which is the first of the fields
  \<^verbatim>\<open>birthplace\<close>, \<^verbatim>\<open>birth_place\<close>, \<^verbatim>\<open>place_of_birth\<close> and \<^verbatim>\<open>hometown\<close> that the record holds,
  and the address, which is the first of the fields \<^verbatim>\<open>address\<close> and \<^verbatim>\<open>que_quan\<close> that it
  holds, with a space between them when both are there, in lower case. The biography text:
  the first of the fields \<^verbatim>\<open>biography\<close>, \<^verbatim>\<open>bio\<close> and \<^verbatim>\<open>description\<close>, in lower case.
\<close>

definition place_text :: "platform \<Rightarrow> jsval \<Rightarrow> jsstring" where
  "place_text P rawPerson =
     (let place = getProp rawPerson [js ''birthplace'', js ''birth_place'',
                                     js ''place_of_birth'', js ''hometown''];
          addr = getProp rawPerson [js ''address'', js ''que_quan'']
      in toLowerCase P
           (if truthy place \<and> truthy addr then printed P place @ [32] @ printed P addr
            else if truthy place then printed P place
            else if truthy addr then printed P addr
            else []))"

definition biography_text :: "platform \<Rightarrow> jsval \<Rightarrow> jsstring" where
  "biography_text P rawPerson =
     (let bio = getProp rawPerson [js ''biography'', js ''bio'', js ''description'']
      in if truthy bio then toLowerCase P (printed P bio) else [])"

text \<open>
  The combined text of the description, which the code does not search: the fields
  \<^verbatim>\<open>birthplace\<close>, \<^verbatim>\<open>hometown\<close> and \<^verbatim>\<open>address\<close> that the record holds, with a space
  between them, in lower case.
\<close>

definition combined_place_text :: "platform \<Rightarrow> jsval \<Rightarrow> jsstring" where
  "combined_place_text P rawPerson =
     toLowerCase P
       (join_with [32]
          (map (printed P)
             (filter truthy [js_get rawPerson (js ''birthplace''),
                             js_get rawPerson (js ''hometown''),
                             js_get rawPerson (js ''address'')])))"

text \<open>
  A site matches a person record: its name is a string whose lower-cased form has at least
  three code units and occurs in the place text, or in the biography text right after one
  of the four phrases and a space.
\<close>

definition site_matches_person :: "platform \<Rightarrow> jsval \<Rightarrow> site \<Rightarrow> bool" where
  "site_matches_person P rawPerson s =
     (case site_name s of
        JStr name \<Rightarrow>
          3 \<le> length (toLowerCase P name)
          \<and> (js_includes (place_text P rawPerson) (toLowerCase P name)
             \<or> list_ex (\<lambda>phrase. js_includes (biography_text P rawPerson)
                                     (phrase @ [32] @ toLowerCase P name))
                  [sinh_tai, sinh_o, nguoi, que])
      | _ \<Rightarrow> False)"

text \<open>A person is located at a site, a person is without location, and a site carries an
  identifier.\<close>

definition located_at :: "person \<Rightarrow> site \<Rightarrow> bool" where
  "located_at p s =
     (person_latitude p = Some (latitude s) \<and> person_longitude p = Some (longitude s)
      \<and> location_name p = Some (site_name s))"

definition unlocated :: "person \<Rightarrow> bool" where
  "unlocated p =
     (person_latitude p = None \<and> person_longitude p = None \<and> location_name p = None)"

definition site_has_id :: "platform \<Rightarrow> jsstring \<Rightarrow> site \<Rightarrow> bool" where
  "site_has_id P i s = (js_String P (site_id s) = Value i)"

text \<open>
  The example of the specification: a site named after the city of Hue and a site named
  after the province Thua Thien Hue (both with their diacritics, as code units). Four
  persons: the home town of the first is the province; the biography of the second says
  that he was born there (the phrase, a space, the name); the biography of the third is
  the name alone; the fourth has the birthplace Ha Noi and the home town of the first.
\<close>

definition hue :: jsstring where
  "hue = [72, 117, 7871]"

definition thua_thien_hue :: jsstring where
  "thua_thien_hue = [84, 104, 7915, 97, 32, 84, 104, 105, 234, 110, 32, 72, 117, 7871]"

definition hue_site :: site where
  "hue_site =
     \<lparr> site_id = JStr (js ''s1''), site_name = JStr hue, site_type = JStr di_tich,
       latitude = Fin 16.4637, longitude = Fin 107.5909, address = JStr [], description = [],
       established_year = JUndefined, status = JUndefined, city_id = JUndefined,
       additional_info = JObj [] \<rparr>"

definition thua_thien_hue_site :: site where
  "thua_thien_hue_site =
     \<lparr> site_id = JStr (js ''s2''), site_name = JStr thua_thien_hue, site_type = JStr di_tich,
       latitude = Fin 16.3375, longitude = Fin 107.5563, address = JStr [], description = [],
       established_year = JUndefined, status = JUndefined, city_id = JUndefined,
       additional_info = JObj [] \<rparr>"

definition hometown_person_raw :: jsval where
  "hometown_person_raw =
     JObj [(js ''person_key'', JStr (js ''p1'')), (js ''full_name'', JStr (js ''An'')),
           (js ''hometown'', JStr thua_thien_hue)]"

definition born_person_raw :: jsval where
  "born_person_raw =
     JObj [(js ''person_key'', JStr (js ''p2'')), (js ''full_name'', JStr (js ''Binh'')),
           (js ''biography'', JStr (sinh_tai @ [32] @ thua_thien_hue))]"

definition mentioned_person_raw :: jsval where
  "mentioned_person_raw =
     JObj [(js ''person_key'', JStr (js ''p3'')), (js ''full_name'', JStr (js ''Chi'')),
           (js ''biography'', JStr thua_thien_hue)]"

definition two_places_person_raw :: jsval where
  "two_places_person_raw =
     JObj [(js ''person_key'', JStr (js ''p4'')), (js ''full_name'', JStr (js ''Dung'')),
           (js ''birthplace'', JStr (js ''Ha Noi'')), (js ''hometown'', JStr thua_thien_hue)]"

text \<open>A loaded store that holds the first three persons, and one that holds the fourth.\<close>

definition hue_refData :: refData where
  "hue_refData = initial_refData
     \<lparr> personMap := [(js ''p1'', hometown_person_raw), (js ''p2'', born_person_raw),
                      (js ''p3'', mentioned_person_raw)],
       isLoaded := True \<rparr>"

definition two_places_refData :: refData where
  "two_places_refData = initial_refData
     \<lparr> personMap := [(js ''p4'', two_places_person_raw)], isLoaded := True \<rparr>"

text \<open>
  A person record without any text, and a loaded store that holds it and links the person
  to an event at the location \<^verbatim>\<open>s1\<close> of the examples above, which is in the city \<^verbatim>\<open>c1\<close>.
\<close>

definition plain_person_raw :: jsval where
  "plain_person_raw =
     JObj [(js ''person_key'', JStr (js ''p1'')), (js ''full_name'', JStr (js ''An''))]"

definition linked_refData :: refData where
  "linked_refData = initial_refData
     \<lparr> personEventRelations :=
         [JObj [(js ''person_key'', JStr (js ''p1'')), (js ''event_key'', JStr (js ''e1''))]],
       personMap := [(js ''p1'', plain_person_raw)],
       eventsCache :=
         [JObj [(js ''event_key'', JStr (js ''e1'')), (js ''site_id'', JStr (js ''s1''))]],
       isLoaded := True \<rparr>"

chapter \<open>The properties\<close>

text \<open>
  The properties claimed of the service layer, each after the lemmas it rests on. The
  examples evaluate the model on concrete records.
\<close>

section \<open>Facts about the text normaliser\<close>

lemmas cleanText_eval = replaceAll.simps group_star.simps cleanText_def js_def citation_def
  List.bind_def lit_def plus_cls_def is_space_def is_digit_def is_sep_def trim_def
  group_once_def

lemma cleanText_strips_citations:
  "cleanText (js ''Event [1, 2] happened [3]'') = js ''Event happened''"
  by (simp add: cleanText_eval)

lemma cleanText_marker_shapes:
  "cleanText (js ''a [1 - 2;3 ] b [x] [12a] [ ] [1,,2] [1 2 3] [12 ,; 3]c'') =
     js ''a b [x] [12a] [ ] c''"
  by (simp add: cleanText_eval)

lemma star_cls_hd: "star_cls p s \<noteq> [] \<and> hd (star_cls p s) = dropWhile p s"
  by (induction s) auto

lemma collapse_Nil: "replaceAll (plus_cls is_space) [32] [] = []"
  by (simp add: plus_cls_def replaceAll.simps)

lemma collapse_Cons:
  "replaceAll (plus_cls is_space) [32] (c # cs) =
     (if is_space c then 32 # replaceAll (plus_cls is_space) [32] (dropWhile is_space cs)
      else c # replaceAll (plus_cls is_space) [32] cs)"
proof (cases "is_space c")
  case True
  obtain r rs where r: "star_cls is_space cs = r # rs" "r = dropWhile is_space cs"
    using star_cls_hd[of is_space cs] by (cases "star_cls is_space cs") auto
  have "length r \<le> length cs" using r(2) by (simp add: length_dropWhile_le)
  then show ?thesis using True r by (simp add: plus_cls_def replaceAll.simps)
next
  case False
  then show ?thesis by (simp add: plus_cls_def replaceAll.simps)
qed

lemma is_space_32: "is_space 32"
  by (simp add: is_space_def)

lemma collapse_single_spaced: "single_spaced (replaceAll (plus_cls is_space) [32] s)"
proof (induction s rule: length_induct)
  case (1 s)
  show ?case
  proof (cases s)
    case Nil
    then show ?thesis by (simp add: collapse_Nil)
  next
    case (Cons c cs)
    show ?thesis
    proof (cases "is_space c")
      case True
      define d where "d = dropWhile is_space cs"
      have len: "length d < length s"
        using Cons by (simp add: d_def length_dropWhile_le less_Suc_eq_le)
      have ih: "single_spaced (replaceAll (plus_cls is_space) [32] d)" using 1 len by blast
      have eq: "replaceAll (plus_cls is_space) [32] s =
                  32 # replaceAll (plus_cls is_space) [32] d"
        using Cons True by (simp add: collapse_Cons d_def)
      show ?thesis
      proof (cases d)
        case Nil
        then show ?thesis using eq by (simp add: collapse_Nil is_space_32)
      next
        case (Cons e es)
        have "dropWhile is_space cs = e # es" using Cons by (simp add: d_def)
        then have ne: "\<not> is_space e"
          by (metis hd_dropWhile list.sel(1) list.distinct(1))
        show ?thesis using eq Cons ne ih by (simp add: collapse_Cons is_space_32)
      qed
    next
      case False
      have ih: "single_spaced (replaceAll (plus_cls is_space) [32] cs)" using 1 Cons by simp
      show ?thesis using Cons False ih
        by (cases "replaceAll (plus_cls is_space) [32] cs") (simp_all add: collapse_Cons)
    qed
  qed
qed

lemma single_spaced_collapse:
  "single_spaced s \<Longrightarrow> replaceAll (plus_cls is_space) [32] s = s"
  by (induction s rule: single_spaced.induct) (auto simp: collapse_Cons collapse_Nil)

lemma single_spaced_tl: "single_spaced (c # cs) \<Longrightarrow> single_spaced cs"
  by (cases cs) auto

lemma single_spaced_dropWhile: "single_spaced s \<Longrightarrow> single_spaced (dropWhile p s)"
  by (induction s) (auto dest: single_spaced_tl)

lemma single_spaced_prefix: "single_spaced (xs @ ys) \<Longrightarrow> single_spaced xs"
proof (induction xs rule: single_spaced.induct)
  case 1
  then show ?case by simp
next
  case (2 c)
  then show ?case by (cases ys) (auto split: if_splits)
next
  case (3 c d r)
  then show ?case by (auto split: if_splits)
qed

lemma rev_dropWhile_rev_prefix: "\<exists>zs. xs = rev (dropWhile p (rev xs)) @ zs"
proof -
  have "rev xs = takeWhile p (rev xs) @ dropWhile p (rev xs)" by simp
  then have "xs = rev (dropWhile p (rev xs)) @ rev (takeWhile p (rev xs))"
    by (metis rev_append rev_rev_ident)
  then show ?thesis by blast
qed

lemma single_spaced_trim: "single_spaced s \<Longrightarrow> single_spaced (trim s)"
proof -
  assume a: "single_spaced s"
  let ?y = "dropWhile is_space s"
  have y: "single_spaced ?y" using a by (rule single_spaced_dropWhile)
  obtain zs where "?y = rev (dropWhile is_space (rev ?y)) @ zs"
    using rev_dropWhile_rev_prefix by blast
  then show ?thesis using y single_spaced_prefix unfolding trim_def by metis
qed

lemma trim_trim: "trim (trim s) = trim s"
proof -
  define y where "y = dropWhile is_space s"
  define w where "w = dropWhile is_space (rev y)"
  have z: "trim s = rev w" by (simp add: trim_def y_def w_def)
  have w_fix: "dropWhile is_space w = w"
    using hd_dropWhile[of is_space "rev y"] by (auto simp: w_def dropWhile_eq_self_iff)
  have "dropWhile is_space (rev w) = rev w"
  proof (cases "w = []")
    case True
    then show ?thesis by simp
  next
    case False
    have "rev y = takeWhile is_space (rev y) @ w" by (simp add: w_def)
    then have "y = rev w @ rev (takeWhile is_space (rev y))"
      by (metis rev_append rev_rev_ident)
    then have hd: "hd (rev w) = hd y" and ne: "y \<noteq> []"
      using False
      by (metis hd_append2 rev_is_Nil_conv, metis False append_is_Nil_conv rev_is_Nil_conv)
    have "\<not> is_space (hd y)" using ne hd_dropWhile[of is_space s] by (simp add: y_def)
    then show ?thesis using hd by (simp add: dropWhile_eq_self_iff)
  qed
  then have step: "dropWhile is_space (rev (dropWhile is_space (rev w))) = w"
    using w_fix by simp
  have "trim (rev w) = rev (dropWhile is_space (rev (dropWhile is_space (rev w))))"
    by (simp add: trim_def)
  then have "trim (rev w) = rev w" using step by simp
  then show ?thesis using z by simp
qed

text \<open>
  Claim C2, as stated: \<^verbatim>\<open>cleanText(cleanText(s))\<close> equals \<^verbatim>\<open>cleanText(s)\<close> for every string.
  It fails: removing the marker \<^verbatim>\<open>[1]\<close> from \<^verbatim>\<open>[[1]2]\<close> leaves \<^verbatim>\<open>[2]\<close>, a marker that the
  single pass has already gone past and that a second call removes.
\<close>

theorem cleanText_not_idempotent:
  "cleanText (cleanText [91, 91, 49, 93, 50, 93]) \<noteq> cleanText [91, 91, 49, 93, 50, 93]"
  by (simp add: cleanText_eval)

text \<open>
  Claim C2, amended: \<^verbatim>\<open>cleanText\<close> is idempotent on every string whose cleaned text holds no
  citation marker, that is, removing citation markers from \<^verbatim>\<open>cleanText(s)\<close> changes nothing.
  The white-space normalisation (collapse, then trim) is idempotent without condition.
\<close>

theorem cleanText_idempotent_without_marker:
  assumes "replaceAll citation [] (cleanText s) = cleanText s"
  shows "cleanText (cleanText s) = cleanText s"
proof (cases "cleanText s = []")
  case True
  then show ?thesis by (simp add: cleanText_def)
next
  case False
  then have s: "s \<noteq> []" by (auto simp: cleanText_def)
  let ?c = "replaceAll (plus_cls is_space) [32] (replaceAll citation [] s)"
  have t: "cleanText s = trim ?c" using s by (simp add: cleanText_def)
  have "single_spaced (trim ?c)" by (rule single_spaced_trim[OF collapse_single_spaced])
  then have "replaceAll (plus_cls is_space) [32] (cleanText s) = cleanText s"
    using t single_spaced_collapse by simp
  then have "cleanText (cleanText s) = trim (cleanText s)"
    using False assms by (simp add: cleanText_def)
  then show ?thesis using t trim_trim by simp
qed

theorem cleanText_idempotent_witness:
  "replaceAll citation [] (cleanText (js ''Event [1, 2] happened [3]'')) =
     cleanText (js ''Event [1, 2] happened [3]'')
   \<and> cleanText (cleanText (js ''Event [1, 2] happened [3]'')) = js ''Event happened''"
proof -
  have h: "replaceAll citation [] (cleanText (js ''Event [1, 2] happened [3]'')) =
             cleanText (js ''Event [1, 2] happened [3]'')"
    by (simp add: cleanText_eval)
  have r: "cleanText (js ''Event [1, 2] happened [3]'') = js ''Event happened''"
    by (simp add: cleanText_eval)
  show ?thesis
    using h r cleanText_idempotent_without_marker[OF h] by simp
qed

section \<open>Facts about exceptions and plain values\<close>

lemma and_then_Value_iff: "and_then m f = Value y \<longleftrightarrow> (\<exists>x. m = Value x \<and> f x = Value y)"
  by (cases m) auto

lemma and_then_Failure_iff:
  "and_then m f = Failure \<longleftrightarrow> m = Failure \<or> (\<exists>x. m = Value x \<and> f x = Failure)"
  by (cases m) auto

lemma map_Value_eq: "map Value xs = map Value ys \<longleftrightarrow> xs = ys"
  by (rule inj_map_eq_map) (simp add: inj_def)

lemma collect_Value: "collect os = Value vs \<longleftrightarrow> os = map Value vs"
proof (induction os arbitrary: vs rule: collect.induct)
  case 1
  then show ?case by auto
next
  case (2 rest)
  then show ?case by auto
next
  case (3 v rest)
  show ?case
  proof (cases "collect rest")
    case Failure
    then have "rest \<noteq> map Value ws" for ws using 3[of ws] by simp
    then show ?thesis using Failure by (cases vs) auto
  next
    case (Value ws)
    then have "rest = map Value ws" using 3[of ws] by simp
    then show ?thesis using Value by (cases vs) (auto simp: map_Value_eq)
  qed
qed

lemma collect_Failure: "collect os = Failure \<longleftrightarrow> Failure \<in> set os"
  by (induction os rule: collect.induct) (auto split: outcome.splits)

lemma collect_map_nth:
  assumes "collect (map f xs) = Value ys"
  shows "length ys = length xs \<and> (\<forall>i<length xs. f (xs ! i) = Value (ys ! i))"
proof -
  have m: "map f xs = map Value ys" using assms by (simp only: collect_Value)
  then have l: "length ys = length xs" by (metis length_map)
  have "\<forall>i<length xs. f (xs ! i) = Value (ys ! i)"
  proof (intro allI impI)
    fix i assume i: "i < length xs"
    have "map f xs ! i = map Value ys ! i" using m by simp
    then show "f (xs ! i) = Value (ys ! i)" using i l by simp
  qed
  then show ?thesis using l by simp
qed

lemma filter_outcome_Value:
  "filter_outcome p xs = Value ys \<Longrightarrow>
     (\<forall>x\<in>set xs. p x \<noteq> Failure) \<and> ys = filter (\<lambda>x. p x = Value True) xs"
  by (induction xs arbitrary: ys) (auto split: outcome.splits if_splits)


lemma find_outcome_Value:
  "find_outcome p xs = Value r \<Longrightarrow> r = find (\<lambda>x. p x = Value True) xs"
  by (induction xs) (auto split: outcome.splits if_splits)


lemma find_outcome_None:
  "find_outcome p xs = Value None \<Longrightarrow> (\<forall>x\<in>set xs. p x = Value False)"
  by (induction xs) (auto split: outcome.splits if_splits)








section \<open>Facts about the fetcher and the site orchestrator\<close>

lemma extractData_array: "extractData P (JArr xs) = Some xs"
  by (subst extractData.simps) simp

lemma first_fulfilled_none:
  "list_all (\<lambda>p. snd p = Failure) ps \<Longrightarrow> first_fulfilled ps = None"
  by (induction ps rule: first_fulfilled.induct) auto

lemma snd_then_map: "snd (then_map f p) = Failure \<longleftrightarrow> snd p = Failure"
  by (cases "(f, p)" rule: then_map.cases) auto

lemma promiseAny_all_fail:
  "list_all (\<lambda>p. snd p = Failure) ps \<Longrightarrow> promiseAny ps = Failure"
  by (simp add: promiseAny_def first_fulfilled_none)

lemma fetchFromApi_never_fails: "fetchFromApi P net endpoint \<noteq> Failure"
  by (auto simp: fetchFromApi_def Let_def split: option.splits outcome.splits)

lemma fetchFromApi_all_reject:
  assumes "all_strategies_reject P net endpoint"
  shows "fetchFromApi P net endpoint = Value (JArr [])"
proof (cases "encodeURIComponent P (API_BASE_URL @ endpoint)")
  case None
  then show ?thesis by (simp add: fetchFromApi_def)
next
  case (Some enc)
  have "list_all (\<lambda>p. snd p = Failure)
          (fetchWithRetry net (API_BASE_URL @ endpoint) #
           map (\<lambda>createUrl. then_map (unwrap_proxy P) (fetchWithRetry net (createUrl @ enc)))
             PROXY_LIST)"
    using assms Some by (simp add: all_strategies_reject_def list_all_iff snd_then_map)
  then show ?thesis using Some by (simp add: fetchFromApi_def promiseAny_all_fail)
qed

lemma fetchSites_body_answered:
  assumes "api (js ''/locations'') = Value sitesRes" and "api (js ''/cities'') = Value citiesRes"
    and "extractData P sitesRes = Some sitesData" and "extractData P citiesRes = Some citiesData"
  shows "fetchSites_body P api =
           Some (and_then (foldl_outcome (push_site P) [] sitesData)
                   (\<lambda>mapped. foldl_outcome (push_city P) mapped citiesData))"
proof -
  have a: "(if length sitesData > 0 then foldl_outcome (push_site P) [] sitesData else Value []) =
             foldl_outcome (push_site P) [] sitesData"
    by (cases sitesData) simp_all
  have b: "(if length citiesData > 0 then foldl_outcome (push_city P) acc citiesData else Value acc)
             = foldl_outcome (push_city P) acc citiesData" for acc
    by (cases citiesData) simp_all
  show ?thesis
    unfolding fetchSites_body_def using assms
    by (simp only: a b collect.simps outcome.case list.case option.case)
qed

lemma fetchSites_empty_responses:
  "api (js ''/locations'') = Value (JArr []) \<Longrightarrow> api (js ''/cities'') = Value (JArr []) \<Longrightarrow>
   fetchSites P api cache = Some ([], [])"
  by (simp add: fetchSites_def fetchSites_body_answered[OF _ _ extractData_array extractData_array])

text \<open>
  Claim C3: for every endpoint, when the direct fetch and the three proxy fetches reject,
  \<^verbatim>\<open>fetchFromApi\<close> resolves to the empty array; it rejects in no case; and \<^verbatim>\<open>fetchSites\<close>
  then resolves to the empty array.
\<close>

theorem fetchFromApi_resolves_empty_when_all_reject:
  "(all_strategies_reject P net endpoint \<longrightarrow> fetchFromApi P net endpoint = Value (JArr []))
   \<and> fetchFromApi P net endpoint \<noteq> Failure
   \<and> (all_strategies_reject P net (js ''/locations'') \<and> all_strategies_reject P net (js ''/cities'')
        \<longrightarrow> fetchSites P (fetchFromApi P net) cache = Some ([], []))"
proof (intro conjI impI)
  show "fetchFromApi P net endpoint \<noteq> Failure" by (rule fetchFromApi_never_fails)
next
  assume "all_strategies_reject P net endpoint"
  then show "fetchFromApi P net endpoint = Value (JArr [])" by (rule fetchFromApi_all_reject)
next
  assume "all_strategies_reject P net (js ''/locations'') \<and> all_strategies_reject P net (js ''/cities'')"
  then have "fetchFromApi P net (js ''/locations'') = Value (JArr [])"
    and "fetchFromApi P net (js ''/cities'') = Value (JArr [])"
    by (simp_all add: fetchFromApi_all_reject)
  then show "fetchSites P (fetchFromApi P net) cache = Some ([], [])"
    by (rule fetchSites_empty_responses)
qed

theorem fetchFromApi_all_reject_witness:
  "\<forall>P cache. all_strategies_reject P offline (js ''/locations'')
     \<and> all_strategies_reject P offline (js ''/cities'')
     \<and> fetchFromApi P offline (js ''/locations'') = Value (JArr [])
     \<and> fetchSites P (fetchFromApi P offline) cache = Some ([], [])"
proof (intro allI)
  fix P :: platform and cache :: "site list"
  have r: "all_strategies_reject P offline e" for e
    by (simp add: all_strategies_reject_def fetchWithRetry_def offline_def PROXY_LIST_def
        split: option.splits)
  show "all_strategies_reject P offline (js ''/locations'')
     \<and> all_strategies_reject P offline (js ''/cities'')
     \<and> fetchFromApi P offline (js ''/locations'') = Value (JArr [])
     \<and> fetchSites P (fetchFromApi P offline) cache = Some ([], [])"
    using r fetchFromApi_resolves_empty_when_all_reject[of P offline "js ''/locations''" cache]
    by simp
qed








subsection \<open>The examples\<close>







text \<open>The real fetcher on the network of the examples.\<close>

lemma fetchFromApi_serving:
  "fetchFromApi example_platform (serving locations cities) (js ''/locations'') = Value locations"
  "fetchFromApi example_platform (serving locations cities) (js ''/cities'') = Value cities"
  by (simp_all add: fetchFromApi_def serving_def fetchWithRetry_def promiseAny_def
      PROXY_LIST_def example_platform_def Let_def js_def)

lemma throwing_site_mapSite: "mapSite P throwing_site_raw = Failure"
  by (simp add: throwing_site_raw_def mapSite_def js_def js_or_def Let_def)





subsection \<open>The sites returned\<close>











subsection \<open>The site cache\<close>

lemma foldl_push_site_Failure:
  "\<exists>r\<in>set xs. mapSite P r = Failure \<Longrightarrow> foldl_outcome (push_site P) acc xs = Failure"
proof (induction xs arbitrary: acc)
  case Nil
  then show ?case by simp
next
  case (Cons x xs)
  show ?case
  proof (cases "mapSite P x")
    case Failure
    then show ?thesis by (simp add: push_site_def)
  next
    case (Value s)
    then have "\<exists>r\<in>set xs. mapSite P r = Failure" using Cons.prems by auto
    then show ?thesis using Cons.IH Value by (simp add: push_site_def)
  qed
qed

lemma foldl_push_city_Failure:
  "\<exists>r\<in>set xs. mapSite P r = Failure \<Longrightarrow> foldl_outcome (push_city P) acc xs = Failure"
proof (induction xs arbitrary: acc)
  case Nil
  then show ?case by simp
next
  case (Cons x xs)
  show ?case
  proof (cases "push_city P acc x")
    case Failure
    then show ?thesis by simp
  next
    case (Value acc')
    then have "mapSite P x \<noteq> Failure" by (auto simp: push_city_def)
    then have "\<exists>r\<in>set xs. mapSite P r = Failure" using Cons.prems by auto
    then show ?thesis using Cons.IH Value by simp
  qed
qed

text \<open>
  Claim C10: the site cache is assigned at the end of the \<^verbatim>\<open>try\<close> block only. When the
  block fails, \<^verbatim>\<open>fetchSites\<close> returns the empty array and the cache keeps its content; when
  it completes, the cache is the list returned. The block fails when a request rejects and
  when the mapper throws on a location or city record. The witness is the fetcher itself
  on a network that serves a record on which the mapper throws.
\<close>

theorem fetchSites_cache_atomic:
  "(fetchSites_body P api = Some Failure \<longrightarrow> fetchSites P api cache = Some ([], cache))
   \<and> (\<forall>mapped. fetchSites_body P api = Some (Value mapped)
         \<longrightarrow> fetchSites P api cache = Some (mapped, mapped))
   \<and> (api (js ''/locations'') = Failure \<or> api (js ''/cities'') = Failure
         \<longrightarrow> fetchSites_body P api = Some Failure)
   \<and> (\<forall>sitesRes citiesRes sitesData citiesData.
         api (js ''/locations'') = Value sitesRes \<and> api (js ''/cities'') = Value citiesRes
         \<and> extractData P sitesRes = Some sitesData \<and> extractData P citiesRes = Some citiesData
         \<and> (\<exists>r\<in>set (sitesData @ citiesData). mapSite P r = Failure)
         \<longrightarrow> fetchSites_body P api = Some Failure)"
proof (intro conjI allI impI)
  assume "fetchSites_body P api = Some Failure"
  then show "fetchSites P api cache = Some ([], cache)" by (simp add: fetchSites_def)
next
  fix mapped assume "fetchSites_body P api = Some (Value mapped)"
  then show "fetchSites P api cache = Some (mapped, mapped)" by (simp add: fetchSites_def)
next
  assume "api (js ''/locations'') = Failure \<or> api (js ''/cities'') = Failure"
  then show "fetchSites_body P api = Some Failure"
    by (cases "api (js ''/locations'')"; cases "api (js ''/cities'')")
       (simp_all add: fetchSites_body_def)
next
  fix sitesRes citiesRes sitesData citiesData
  assume a: "api (js ''/locations'') = Value sitesRes \<and> api (js ''/cities'') = Value citiesRes
         \<and> extractData P sitesRes = Some sitesData \<and> extractData P citiesRes = Some citiesData
         \<and> (\<exists>r\<in>set (sitesData @ citiesData). mapSite P r = Failure)"
  then have b: "fetchSites_body P api =
           Some (and_then (foldl_outcome (push_site P) [] sitesData)
                   (\<lambda>mapped. foldl_outcome (push_city P) mapped citiesData))"
    using fetchSites_body_answered by blast
  have "(\<exists>r\<in>set sitesData. mapSite P r = Failure) \<or> (\<exists>r\<in>set citiesData. mapSite P r = Failure)"
    using a by auto
  then have "and_then (foldl_outcome (push_site P) [] sitesData)
               (\<lambda>mapped. foldl_outcome (push_city P) mapped citiesData) = Failure"
  proof
    assume "\<exists>r\<in>set sitesData. mapSite P r = Failure"
    then show ?thesis by (simp add: foldl_push_site_Failure)
  next
    assume "\<exists>r\<in>set citiesData. mapSite P r = Failure"
    then show ?thesis
      by (cases "foldl_outcome (push_site P) [] sitesData") (simp_all add: foldl_push_city_Failure)
  qed
  then show "fetchSites_body P api = Some Failure" using b by simp
qed

theorem fetchSites_cache_atomic_witness:
  "fetchSites_body example_platform
     (fetchFromApi example_platform (serving (JArr [example_site_raw, throwing_site_raw]) (JArr [])))
     = Some Failure
   \<and> fetchSites example_platform
       (fetchFromApi example_platform (serving (JArr [example_site_raw, throwing_site_raw]) (JArr [])))
       [example_city]
     = Some ([], [example_city])
   \<and> mapSite example_platform throwing_site_raw = Failure"
proof -
  let ?api = "fetchFromApi example_platform
                (serving (JArr [example_site_raw, throwing_site_raw]) (JArr []))"
  have l: "?api (js ''/locations'') = Value (JArr [example_site_raw, throwing_site_raw])"
    by (rule fetchFromApi_serving)
  have c: "?api (js ''/cities'') = Value (JArr [])"
    by (rule fetchFromApi_serving)
  have t: "\<exists>r\<in>set ([example_site_raw, throwing_site_raw] @ []).
             mapSite example_platform r = Failure"
    by (simp add: throwing_site_mapSite)
  have x: "extractData example_platform (JArr [example_site_raw, throwing_site_raw])
             = Some [example_site_raw, throwing_site_raw]"
     "extractData example_platform (JArr []) = Some []"
    by (rule extractData_array)+
  have b: "fetchSites_body example_platform ?api = Some Failure"
    using fetchSites_cache_atomic[of example_platform ?api "[example_city]"] l c t x by blast
  then have "fetchSites example_platform ?api [example_city] = Some ([], [example_city])"
    using fetchSites_cache_atomic[of example_platform ?api "[example_city]"] by blast
  then show ?thesis using b throwing_site_mapSite by blast
qed

section \<open>Facts about the reference data store\<close>

text \<open>
  Claim C8: called while the store is loaded or a load is in flight,
  \<^verbatim>\<open>ensureReferenceDataLoaded\<close> returns at once: it asks for no endpoint and leaves every
  field of the store as it was. (So a caller that arrives during a load returns with
  \<^verbatim>\<open>isLoaded\<close> still false, and a loaded store is never loaded again.)
\<close>

theorem ensureReferenceDataLoaded_guard:
  assumes "isLoaded refData \<or> isLoading refData"
  shows "ensureReferenceDataLoaded P api refData = Some (refData, [])"
  using assms by (simp add: ensureReferenceDataLoaded_def)

theorem ensureReferenceDataLoaded_guard_witness:
  "\<forall>P api. ensureReferenceDataLoaded P api (initial_refData\<lparr>isLoading := True\<rparr>) =
      Some (initial_refData\<lparr>isLoading := True\<rparr>, [])
    \<and> \<not> isLoaded (initial_refData\<lparr>isLoading := True\<rparr>)"
proof (intro allI)
  fix P :: platform and api :: api
  have h: "isLoaded (initial_refData\<lparr>isLoading := True\<rparr>)
           \<or> isLoading (initial_refData\<lparr>isLoading := True\<rparr>)"
    by simp
  show "ensureReferenceDataLoaded P api (initial_refData\<lparr>isLoading := True\<rparr>) =
      Some (initial_refData\<lparr>isLoading := True\<rparr>, [])
    \<and> \<not> isLoaded (initial_refData\<lparr>isLoading := True\<rparr>)"
    using ensureReferenceDataLoaded_guard[OF h, of P api] by (simp add: initial_refData_def)
qed

lemma ensureReferenceDataLoaded_first_call:
  "ensureReferenceDataLoaded P (\<lambda>e. Value (JArr [])) initial_refData =
     Some (initial_refData\<lparr>isLoaded := True\<rparr>, reference_endpoints)"
  by (simp add: ensureReferenceDataLoaded_def initial_refData_def reference_endpoints_def
      store_reference_def extractData_array new_Map_def keyed_def)

text \<open>A person record whose key throws leaves the store with the media and the join tables
  of the load, without persons and not loaded: the next call loads again.\<close>

lemma ensureReferenceDataLoaded_throwing_person_key:
  "ensureReferenceDataLoaded P
     (\<lambda>e. Value (if e = js ''/persons''
                  then JArr [JObj [(js ''person_key'', JObj [(js ''toString'', JNum (Fin 1))])]]
                  else JArr []))
     initial_refData =
   Some (initial_refData, reference_endpoints)"
  by (simp add: ensureReferenceDataLoaded_def initial_refData_def reference_endpoints_def
      store_reference_def extractData_array new_Map_def keyed_def key_of_def js_def)

section \<open>Facts about the hydrator\<close>

lemma Set_add_distinct: "distinct s \<Longrightarrow> distinct (Set_add s x)"
  by (simp add: Set_add_def)




















text \<open>
  Claim C6: the media type is \<^verbatim>\<open>video\<close> exactly when the raw type, read through the keys
  \<^verbatim>\<open>media_type\<close> and \<^verbatim>\<open>type\<close>, is \<^verbatim>\<open>video\<close> or \<^verbatim>\<open>youtube\<close>. The code reads \<^verbatim>\<open>youtube\<close>
  through \<^verbatim>\<open>media_type\<close> only: a record that carries \<^verbatim>\<open>youtube\<close> under \<^verbatim>\<open>type\<close> comes out
  as an image.
\<close>

theorem media_type_youtube_under_type_key:
  "getProp (JObj [(js ''media_id'', JStr (js ''m9'')), (js ''type'', JStr (js ''youtube''))])
     [js ''media_type'', js ''type''] = JStr (js ''youtube'')
   \<and> media_type (map_media
         (JObj [(js ''media_id'', JStr (js ''m9'')), (js ''type'', JStr (js ''youtube''))]))
       = js ''image''"
  by (simp add: map_media_def js_def)

lemma media_type_video_or_image:
  "media_type (map_media m) =
     (if getProp m [js ''media_type'', js ''type''] = JStr (js ''video'')
         \<or> getProp m [js ''media_type''] = JStr (js ''youtube'')
      then js ''video'' else js ''image'')"
  by (simp add: map_media_def)

text \<open>A media record that is a string has the builtin \<^verbatim>\<open>link\<close> as its URL.\<close>

lemma media_url_of_string_record: "s \<noteq> [] \<Longrightarrow> media_url (map_media (JStr s)) = JFunction"
  by (simp add: map_media_def js_or_def js_def)

section \<open>Facts about the resolver\<close>

lemma printed_Value: "js_String P v = Value s \<Longrightarrow> printed P v = s"
  by (simp add: printed_def)

lemma textToSearch_Value:
  assumes "textToSearch P raw = Value t"
  shows "t = place_text P raw"
proof -
  let ?b = "getProp raw [js ''birthplace'', js ''birth_place'', js ''place_of_birth'',
                         js ''hometown'']"
  let ?q = "getProp raw [js ''address'', js ''que_quan'']"
  obtain pieces where c: "collect (map (js_String P) (filter truthy [?b, ?q])) = Value pieces"
    and t: "t = toLowerCase P (join_with [32] pieces)"
    using assms by (auto simp: textToSearch_def Let_def and_then_Value_iff simp del: getProp.simps)
  have m: "map (js_String P) (filter truthy [?b, ?q]) = map Value pieces"
    using c by (simp only: collect_Value)
  show ?thesis
  proof (cases "truthy ?b"; cases "truthy ?q")
    assume "truthy ?b" "truthy ?q"
    then obtain x y where "pieces = [x, y]" "js_String P ?b = Value x" "js_String P ?q = Value y"
      using m by (cases pieces; cases "tl pieces") (auto simp del: getProp.simps)
    then show ?thesis using t \<open>truthy ?b\<close> \<open>truthy ?q\<close>
      by (simp add: place_text_def Let_def printed_Value del: getProp.simps)
  next
    assume "truthy ?b" "\<not> truthy ?q"
    then obtain x where "pieces = [x]" "js_String P ?b = Value x"
      using m by (cases pieces) (auto simp del: getProp.simps)
    then show ?thesis using t \<open>truthy ?b\<close> \<open>\<not> truthy ?q\<close>
      by (simp add: place_text_def Let_def printed_Value del: getProp.simps)
  next
    assume "\<not> truthy ?b" "truthy ?q"
    then obtain y where "pieces = [y]" "js_String P ?q = Value y"
      using m by (cases pieces) (auto simp del: getProp.simps)
    then show ?thesis using t \<open>\<not> truthy ?b\<close> \<open>truthy ?q\<close>
      by (simp add: place_text_def Let_def printed_Value del: getProp.simps)
  next
    assume "\<not> truthy ?b" "\<not> truthy ?q"
    then have "pieces = []" using m by (simp del: getProp.simps)
    then show ?thesis using t \<open>\<not> truthy ?b\<close> \<open>\<not> truthy ?q\<close>
      by (simp add: place_text_def Let_def del: getProp.simps)
  qed
qed

lemma bioToSearch_Value:
  assumes "bioToSearch P raw = Value b"
  shows "b = biography_text P raw"
  using assms
  by (auto simp: bioToSearch_def biography_text_def Let_def and_then_Value_iff printed_Value
      simp del: getProp.simps split: if_splits)

lemma isMatch_iff:
  "isMatch text bio n \<longleftrightarrow>
     js_includes text n
     \<or> list_ex (\<lambda>phrase. js_includes bio (phrase @ [32] @ n)) [sinh_tai, sinh_o, nguoi, que]"
  by (auto simp: isMatch_def)

lemma scan_site_Value:
  assumes "scan_site P (place_text P raw) (biography_text P raw) st s = Value st'"
  shows "snd st' = (if snd st = None \<and> site_matches_person P raw s then Some s else snd st)
         \<and> (\<not> site_matches_person P raw s \<longrightarrow> st' = st)"
proof -
  obtain name where n: "site_name s = JStr name"
    using assms by (cases "site_name s") (simp_all add: scan_site_def)
  have iff: "site_matches_person P raw s \<longleftrightarrow>
               3 \<le> length (toLowerCase P name)
               \<and> isMatch (place_text P raw) (biography_text P raw) (toLowerCase P name)"
    by (simp add: site_matches_person_def n isMatch_iff)
  show ?thesis
  proof (cases "site_matches_person P raw s")
    case False
    then have "st' = st" using assms iff by (auto simp: scan_site_def n Let_def split: if_splits)
    then show ?thesis using False by simp
  next
    case True
    then have "snd st' = (if snd st = None then Some s else snd st)"
      using assms iff by (auto simp: scan_site_def n Let_def and_then_Value_iff split: if_splits)
    then show ?thesis using True by simp
  qed
qed

lemma scan_sites_Value:
  "scan_sites P (place_text P raw) (biography_text P raw) ss st = Value st' \<Longrightarrow>
     snd st' = (case snd st of Some l \<Rightarrow> Some l | None \<Rightarrow> find (site_matches_person P raw) ss)
     \<and> (find (site_matches_person P raw) ss = None \<longrightarrow> st' = st)"
proof (induction ss arbitrary: st)
  case Nil
  then show ?case by (simp add: scan_sites_def split: option.splits)
next
  case (Cons s ss)
  then obtain st1 where s1: "scan_site P (place_text P raw) (biography_text P raw) st s = Value st1"
    and s2: "scan_sites P (place_text P raw) (biography_text P raw) ss st1 = Value st'"
    by (auto simp: scan_sites_def split: outcome.splits)
  note a = scan_site_Value[OF s1]
  note b = Cons.IH[OF s2]
  show ?case
  proof (cases "site_matches_person P raw s")
    case True
    then show ?thesis using a b by (auto split: option.splits)
  next
    case False
    then have "st1 = st" using a by simp
    then show ?thesis using b False by (simp split: option.splits)
  qed
qed

lemma assign_location_found:
  "assign_location P sites person ids (Some m) = Value p \<Longrightarrow>
     located_at p m \<and> related_city_ids p = Some ids"
  by (auto simp: assign_location_def Let_def located_at_def)

lemma mapPerson_unlocated: "unlocated (mapPerson P raw)"
  by (simp add: mapPerson_def Let_def unlocated_def)

lemma assign_location_none:
  assumes "assign_location P sites person ids None = Value p" and "unlocated person"
  shows "related_city_ids p = Some ids
         \<and> (case ids of
              [] \<Rightarrow> unlocated p
            | c # others \<Rightarrow>
                (case find (site_has_id P c) sites of
                   None \<Rightarrow> unlocated p
                 | Some citySite \<Rightarrow> located_at p citySite))"
proof (cases ids)
  case Nil
  then show ?thesis using assms by (auto simp: assign_location_def Let_def unlocated_def)
next
  case (Cons c others)
  let ?q = "\<lambda>s. and_then (js_String P (site_id s)) (\<lambda>a.
                and_then (js_String P (JStr c)) (\<lambda>b. Value (a = b)))"
  obtain found where f: "find_outcome ?q sites = Value found"
    and p: "p = (case found of
                   Some citySite \<Rightarrow>
                     person\<lparr>related_city_ids := Some ids,
                            person_latitude := Some (latitude citySite),
                            person_longitude := Some (longitude citySite),
                            location_name := Some (site_name citySite)\<rparr>
                 | None \<Rightarrow> person\<lparr>related_city_ids := Some ids\<rparr>)"
    using assms(1) Cons by (auto simp: assign_location_def Let_def and_then_Value_iff)
  have iff: "?q s = Value True \<longleftrightarrow> site_has_id P c s" for s
    by (cases "js_String P (site_id s)") (auto simp: site_has_id_def)
  have "found = find (\<lambda>s. ?q s = Value True) sites" using f by (rule find_outcome_Value)
  then have fd: "found = find (site_has_id P c) sites" by (simp only: iff)
  show ?thesis
  proof (cases "find (site_has_id P c) sites")
    case None
    then show ?thesis using p fd Cons assms(2) by (simp add: unlocated_def)
  next
    case (Some citySite)
    then show ?thesis using p fd Cons by (simp add: located_at_def)
  qed
qed

lemma locatePerson_Value:
  assumes "locatePerson P refData sites searchable raw = Value p"
  shows "\<exists>ids found. strategyA P refData sites raw = Value ids
           \<and> scan_sites P (place_text P raw) (biography_text P raw) searchable (ids, None)
               = Value found
           \<and> assign_location P sites (mapPerson P raw) (fst found) (snd found) = Value p"
proof -
  obtain ids t b found where a: "strategyA P refData sites raw = Value ids"
    and t: "textToSearch P raw = Value t" and b: "bioToSearch P raw = Value b"
    and s: "scan_sites P t b searchable (ids, None) = Value found"
    and l: "assign_location P sites (mapPerson P raw) (fst found) (snd found) = Value p"
    using assms unfolding locatePerson_def and_then_Value_iff by blast
  show ?thesis
    using a s l textToSearch_Value[OF t] bioToSearch_Value[OF b] by blast
qed

lemma locatePerson_match:
  assumes "locatePerson P refData sites searchable raw = Value p"
    and "find (site_matches_person P raw) searchable = Some m"
  shows "located_at p m"
proof -
  obtain ids found where
    s: "scan_sites P (place_text P raw) (biography_text P raw) searchable (ids, None) = Value found"
    and l: "assign_location P sites (mapPerson P raw) (fst found) (snd found) = Value p"
    using locatePerson_Value[OF assms(1)] by blast
  have "snd found = Some m" using scan_sites_Value[OF s] assms(2) by simp
  then show ?thesis using l assign_location_found by simp
qed

lemma locatePerson_no_match:
  assumes "locatePerson P refData sites searchable raw = Value p"
    and "find (site_matches_person P raw) searchable = None"
  shows "\<exists>ids. strategyA P refData sites raw = Value ids \<and> related_city_ids p = Some ids
           \<and> (case ids of
                [] \<Rightarrow> unlocated p
              | c # others \<Rightarrow>
                  (case find (site_has_id P c) sites of
                     None \<Rightarrow> unlocated p
                   | Some citySite \<Rightarrow> located_at p citySite))"
proof -
  obtain ids found where a: "strategyA P refData sites raw = Value ids"
    and s: "scan_sites P (place_text P raw) (biography_text P raw) searchable (ids, None) = Value found"
    and l: "assign_location P sites (mapPerson P raw) (fst found) (snd found) = Value p"
    using locatePerson_Value[OF assms(1)] by blast
  have "found = (ids, None)" using scan_sites_Value[OF s] assms(2) by simp
  then have "assign_location P sites (mapPerson P raw) ids None = Value p" using l by simp
  then show ?thesis using a assign_location_none[OF _ mapPerson_unlocated] by blast
qed

lemma searchableSites_sorted:
  "sorted_wrt (\<lambda>a b. name_length b \<le> name_length a) (searchableSites sites)"
proof -
  have "sorted (map (\<lambda>s. - int (name_length s)) (searchableSites sites))"
    by (simp add: searchableSites_def)
  then show ?thesis
    by (simp add: sorted_wrt_map sorted_wrt_iff_nth_less sorted_iff_nth_mono_less)
qed

lemma searchableSites_mset: "mset (searchableSites sites) = mset sites"
  by (simp add: searchableSites_def)

lemma searchableSites_stable:
  "filter (\<lambda>s. name_length s = n) (searchableSites sites) = filter (\<lambda>s. name_length s = n) sites"
  using sort_key_stable[of "\<lambda>s. - int (name_length s)" "- int n" sites]
  by (simp add: searchableSites_def)

lemma sort_sites_Value: "sort_sites sites = Value searchable \<Longrightarrow> searchable = searchableSites sites"
  by (simp add: sort_sites_def split: if_splits)

lemma fetchPersons_person:
  assumes "fetchPersons P api refData cache personCache = Some (persons, refData', personCache')"
    and "sites_for_persons P api cache = Some (Value sites)"
    and "i < length persons"
  shows "i < length (personMap refData')
         \<and> locatePerson P refData' sites (searchableSites sites) (snd (personMap refData' ! i))
             = Value (persons ! i)"
proof -
  obtain requested where e: "ensureReferenceDataLoaded P api refData = Some (refData', requested)"
    using assms(1,2)
    by (auto simp: fetchPersons_def split: option.splits outcome.splits)
  let ?loop = "and_then (sort_sites sites) (\<lambda>searchable.
                 collect (map (locatePerson P refData' sites searchable)
                            (map snd (personMap refData'))))"
  have "?loop = Value persons"
    using assms e by (cases ?loop) (auto simp: fetchPersons_def)
  then obtain searchable where s: "sort_sites sites = Value searchable"
    and c: "collect (map (locatePerson P refData' sites searchable)
                       (map snd (personMap refData'))) = Value persons"
    by (auto simp: and_then_Value_iff)
  have s': "searchable = searchableSites sites" using s by (rule sort_sites_Value)
  have n: "length persons = length (map snd (personMap refData'))
           \<and> (\<forall>i<length (map snd (personMap refData')).
                 locatePerson P refData' sites searchable (map snd (personMap refData') ! i)
                   = Value (persons ! i))"
    using c by (rule collect_map_nth)
  then show ?thesis using assms(3) s' by simp
qed

subsection \<open>The first match\<close>

lemma fetchPersons_loaded:
  assumes "isLoaded refData" and "globalSiteCache \<noteq> []"
    and "sort_sites globalSiteCache = Value searchable"
    and "map (locatePerson P refData globalSiteCache searchable) (map snd (personMap refData))
           = map Value persons"
  shows "fetchPersons P api refData globalSiteCache globalPersonCache =
           Some (persons, refData, persons)
         \<and> sites_for_persons P api globalSiteCache = Some (Value globalSiteCache)"
proof -
  have "collect (map (locatePerson P refData globalSiteCache searchable)
           (map snd (personMap refData))) = Value persons"
    using assms(4) by (simp only: collect_Value)
  then show ?thesis
    using assms(1,2,3)
    by (simp add: fetchPersons_def ensureReferenceDataLoaded_def sites_for_persons_def)
qed

lemma hue_sites_sorted:
  "sort_sites [hue_site, thua_thien_hue_site] = Value [thua_thien_hue_site, hue_site]"
  "searchableSites [hue_site, thua_thien_hue_site] = [thua_thien_hue_site, hue_site]"
  by (simp_all add: sort_sites_def searchableSites_def name_length_def hue_site_def
      thua_thien_hue_site_def hue_def thua_thien_hue_def)

lemma hue_sites_mapSite:
  "mapSite P (JObj [(js ''site_id'', JStr (js ''s1'')), (js ''site_name'', JStr hue),
                    (js ''latitude'', JNum (Fin 16.4637)), (js ''longitude'', JNum (Fin 107.5909))])
     = Value hue_site"
  "mapSite P (JObj [(js ''site_id'', JStr (js ''s2'')), (js ''site_name'', JStr thua_thien_hue),
                    (js ''latitude'', JNum (Fin 16.3375)), (js ''longitude'', JNum (Fin 107.5563))])
     = Value thua_thien_hue_site"
  by (simp_all add: hue_site_def thua_thien_hue_site_def mapSite_def js_def js_or_def hue_def
      thua_thien_hue_def parseAdditionalInfo_def cleanText_any_def num_or_zero_def truthy_num_def)

lemmas resolver_eval = locatePerson_def strategyA_def linkedEventKeys_def link_event_def
  key_of_def textToSearch_def bioToSearch_def scan_sites_def scan_site_def isMatch_def
  assign_location_def initial_refData_def trim_def is_space_def Set_add_def Let_def
  example_platform_def ascii_lower_def js_def hue_def thua_thien_hue_def sinh_tai_def sinh_o_def
  nguoi_def que_def di_tich_def thanh_pho_def

lemmas matches_eval = site_matches_person_def place_text_def biography_text_def printed_def
  Let_def example_platform_def ascii_lower_def js_def hue_def thua_thien_hue_def sinh_tai_def
  sinh_o_def nguoi_def que_def

lemma hometown_person_located:
  "locatePerson example_platform hue_refData [hue_site, thua_thien_hue_site]
     [thua_thien_hue_site, hue_site] hometown_person_raw =
   Value ((mapPerson example_platform hometown_person_raw)
            \<lparr>related_city_ids := Some [], person_latitude := Some (Fin 16.3375),
              person_longitude := Some (Fin 107.5563),
              location_name := Some (JStr thua_thien_hue)\<rparr>)"
  by (simp add: resolver_eval hue_refData_def hometown_person_raw_def hue_site_def
      thua_thien_hue_site_def)

lemma born_person_located:
  "locatePerson example_platform hue_refData [hue_site, thua_thien_hue_site]
     [thua_thien_hue_site, hue_site] born_person_raw =
   Value ((mapPerson example_platform born_person_raw)
            \<lparr>related_city_ids := Some [], person_latitude := Some (Fin 16.3375),
              person_longitude := Some (Fin 107.5563),
              location_name := Some (JStr thua_thien_hue)\<rparr>)"
  by (simp add: resolver_eval hue_refData_def born_person_raw_def hue_site_def
      thua_thien_hue_site_def)

lemma mentioned_person_unlocated:
  "locatePerson example_platform hue_refData [hue_site, thua_thien_hue_site]
     [thua_thien_hue_site, hue_site] mentioned_person_raw =
   Value ((mapPerson example_platform mentioned_person_raw)\<lparr>related_city_ids := Some []\<rparr>)"
  by (simp add: resolver_eval hue_refData_def mentioned_person_raw_def hue_site_def
      thua_thien_hue_site_def)

lemma two_places_person_unlocated:
  "locatePerson example_platform two_places_refData [hue_site, thua_thien_hue_site]
     [thua_thien_hue_site, hue_site] two_places_person_raw =
   Value ((mapPerson example_platform two_places_person_raw)\<lparr>related_city_ids := Some []\<rparr>)"
  by (simp add: resolver_eval two_places_refData_def two_places_person_raw_def hue_site_def
      thua_thien_hue_site_def)

lemma hue_matches:
  "find (site_matches_person example_platform hometown_person_raw)
     [thua_thien_hue_site, hue_site] = Some thua_thien_hue_site"
  "site_matches_person example_platform hometown_person_raw hue_site"
  "find (site_matches_person example_platform born_person_raw)
     [thua_thien_hue_site, hue_site] = Some thua_thien_hue_site"
  "\<not> site_matches_person example_platform born_person_raw hue_site"
  "find (site_matches_person example_platform mentioned_person_raw)
     [thua_thien_hue_site, hue_site] = None"
  by (simp_all add: matches_eval hometown_person_raw_def born_person_raw_def
      mentioned_person_raw_def hue_site_def thua_thien_hue_site_def)

text \<open>
  Claim C1, as stated: the location of a person is that of the first site, longest name
  first, whose name occurs in the combined birthplace, hometown and address text or in the
  biography after one of the phrases; in particular a person whose hometown text is the
  province is located at the province. It fails for a person record that holds a birthplace
  and a hometown: the combined text holds the name of the province, but the field resolver
  reads \<^verbatim>\<open>hometown\<close> only where the three birthplace fields are absent, so the
  hometown is not searched and the person gets no location.
\<close>

theorem person_with_birthplace_and_hometown_is_not_located:
  "js_get two_places_person_raw (js ''hometown'') = JStr thua_thien_hue
   \<and> site_name thua_thien_hue_site = JStr thua_thien_hue
   \<and> 3 \<le> length (toLowerCase example_platform thua_thien_hue)
   \<and> js_includes (combined_place_text example_platform two_places_person_raw)
         (toLowerCase example_platform thua_thien_hue)
   \<and> fetchPersons example_platform (fetchFromApi example_platform offline) two_places_refData
         [hue_site, thua_thien_hue_site] []
       = Some ([(mapPerson example_platform two_places_person_raw)\<lparr>related_city_ids := Some []\<rparr>],
               two_places_refData,
               [(mapPerson example_platform two_places_person_raw)\<lparr>related_city_ids := Some []\<rparr>])
   \<and> location_name
         ((mapPerson example_platform two_places_person_raw)\<lparr>related_city_ids := Some []\<rparr>)
       = None"
proof -
  have m: "map (locatePerson example_platform two_places_refData [hue_site, thua_thien_hue_site]
                  [thua_thien_hue_site, hue_site])
             (map snd (personMap two_places_refData))
           = map Value
               [(mapPerson example_platform two_places_person_raw)\<lparr>related_city_ids := Some []\<rparr>]"
  proof -
    have pm: "map snd (personMap two_places_refData) = [two_places_person_raw]"
      by (simp add: two_places_refData_def)
    show ?thesis by (simp only: pm list.map two_places_person_unlocated)
  qed
  have f: "fetchPersons example_platform (fetchFromApi example_platform offline) two_places_refData
         [hue_site, thua_thien_hue_site] []
       = Some ([(mapPerson example_platform two_places_person_raw)\<lparr>related_city_ids := Some []\<rparr>],
               two_places_refData,
               [(mapPerson example_platform two_places_person_raw)\<lparr>related_city_ids := Some []\<rparr>])"
    using fetchPersons_loaded[OF _ _ hue_sites_sorted(1) m] by (simp add: two_places_refData_def)
  have c: "3 \<le> length (toLowerCase example_platform thua_thien_hue)
           \<and> js_includes (combined_place_text example_platform two_places_person_raw)
                 (toLowerCase example_platform thua_thien_hue)"
    by (simp add: combined_place_text_def printed_def two_places_person_raw_def
        example_platform_def ascii_lower_def js_def thua_thien_hue_def)
  show ?thesis
    using f c by (simp add: two_places_person_raw_def thua_thien_hue_site_def js_def mapPerson_def)
qed

text \<open>
  Claim C1, amended: the texts searched are the place text (the first of the fields
  \<^verbatim>\<open>birthplace\<close>, \<^verbatim>\<open>birth_place\<close>, \<^verbatim>\<open>place_of_birth\<close>, \<^verbatim>\<open>hometown\<close> that the record holds, then
  the first of \<^verbatim>\<open>address\<close>, \<^verbatim>\<open>que_quan\<close>) and the biography text. For every person that
  \<^verbatim>\<open>fetchPersons\<close> returns, the sites are scanned longest name first, sites of one name
  length in the order of the site list, and the person takes latitude, longitude and
  location name from the first site of that order that matches: its lower-cased name has
  at least three code units and occurs in the place text, or in the biography text right
  after one of the four phrases and a space. A later match does not change the location.
\<close>

theorem person_location_first_match:
  assumes "fetchPersons P api refData cache personCache = Some (persons, refData', personCache')"
    and "sites_for_persons P api cache = Some (Value sites)"
    and "i < length persons"
    and "find (site_matches_person P (snd (personMap refData' ! i))) (searchableSites sites)
           = Some m"
  shows "sorted_wrt (\<lambda>a b. name_length b \<le> name_length a) (searchableSites sites)
         \<and> filter (\<lambda>s. name_length s = n) (searchableSites sites)
             = filter (\<lambda>s. name_length s = n) sites
         \<and> located_at (persons ! i) m"
proof -
  have "locatePerson P refData' sites (searchableSites sites) (snd (personMap refData' ! i))
          = Value (persons ! i)"
    using fetchPersons_person[OF assms(1,2,3)] by simp
  then have "located_at (persons ! i) m" using assms(4) by (rule locatePerson_match)
  then show ?thesis using searchableSites_sorted searchableSites_stable by blast
qed

theorem person_location_first_match_witness:
  "\<exists>persons.
      fetchPersons example_platform (fetchFromApi example_platform offline) hue_refData
          [hue_site, thua_thien_hue_site] []
        = Some (persons, hue_refData, persons)
      \<and> length persons = 3
      \<and> searchableSites [hue_site, thua_thien_hue_site] = [thua_thien_hue_site, hue_site]
      \<and> find (site_matches_person example_platform hometown_person_raw)
            [thua_thien_hue_site, hue_site] = Some thua_thien_hue_site
      \<and> site_matches_person example_platform hometown_person_raw hue_site
      \<and> find (site_matches_person example_platform born_person_raw)
            [thua_thien_hue_site, hue_site] = Some thua_thien_hue_site
      \<and> find (site_matches_person example_platform mentioned_person_raw)
            [thua_thien_hue_site, hue_site] = None
      \<and> located_at (persons ! 0) thua_thien_hue_site
      \<and> location_name (persons ! 0) = Some (JStr thua_thien_hue)
      \<and> located_at (persons ! 1) thua_thien_hue_site
      \<and> unlocated (persons ! 2)"
proof -
  let ?sites = "[hue_site, thua_thien_hue_site]"
  let ?api = "fetchFromApi example_platform offline"
  define persons where "persons =
    [(mapPerson example_platform hometown_person_raw)
            \<lparr>related_city_ids := Some [], person_latitude := Some (Fin 16.3375),
              person_longitude := Some (Fin 107.5563),
              location_name := Some (JStr thua_thien_hue)\<rparr>,
     (mapPerson example_platform born_person_raw)
            \<lparr>related_city_ids := Some [], person_latitude := Some (Fin 16.3375),
              person_longitude := Some (Fin 107.5563),
              location_name := Some (JStr thua_thien_hue)\<rparr>,
     (mapPerson example_platform mentioned_person_raw)\<lparr>related_city_ids := Some []\<rparr>]"
  have m: "map (locatePerson example_platform hue_refData ?sites [thua_thien_hue_site, hue_site])
             (map snd (personMap hue_refData)) = map Value persons"
  proof -
    have pm: "map snd (personMap hue_refData) =
                [hometown_person_raw, born_person_raw, mentioned_person_raw]"
      by (simp add: hue_refData_def)
    show ?thesis
      by (simp only: pm list.map hometown_person_located born_person_located
            mentioned_person_unlocated persons_def)
  qed
  have l: "isLoaded hue_refData" by (simp add: hue_refData_def)
  have f: "fetchPersons example_platform ?api hue_refData ?sites [] =
             Some (persons, hue_refData, persons)"
    and s: "sites_for_persons example_platform ?api ?sites = Some (Value ?sites)"
    using fetchPersons_loaded[OF l _ hue_sites_sorted(1) m, of ?api "[]"] by simp_all
  have r0: "snd (personMap hue_refData ! 0) = hometown_person_raw"
    and r1: "snd (personMap hue_refData ! 1) = born_person_raw"
    by (simp_all add: hue_refData_def)
  have n: "length persons = 3" by (simp add: persons_def)
  have h0: "find (site_matches_person example_platform (snd (personMap hue_refData ! 0)))
              (searchableSites ?sites) = Some thua_thien_hue_site"
    by (simp only: r0 hue_sites_sorted(2) hue_matches(1))
  have h1: "find (site_matches_person example_platform (snd (personMap hue_refData ! 1)))
              (searchableSites ?sites) = Some thua_thien_hue_site"
    by (simp only: r1 hue_sites_sorted(2) hue_matches(3))
  have i0: "0 < length persons" and i1: "1 < length persons" using n by simp_all
  have p0: "located_at (persons ! 0) thua_thien_hue_site"
    using person_location_first_match[OF f s i0 h0] by simp
  have p1: "located_at (persons ! 1) thua_thien_hue_site"
    using person_location_first_match[OF f s i1 h1] by simp
  have p2: "unlocated (persons ! 2)"
    by (simp add: persons_def unlocated_def mapPerson_def Let_def)
  have nm: "location_name (persons ! 0) = Some (JStr thua_thien_hue)"
    using p0 by (simp add: located_at_def thua_thien_hue_site_def)
  show ?thesis
    using f n hue_sites_sorted(2) hue_matches(1,2,3,5) p0 nm p1 p2 by blast
qed

subsection \<open>The fallback\<close>

lemma plain_person_no_match: "\<not> site_matches_person example_platform plain_person_raw s"
proof (cases "site_name s")
  case (JStr name)
  have i: "starts_with [] pat \<longleftrightarrow> pat = []" for pat :: jsstring
    by (cases pat) simp_all
  show ?thesis
    by (auto simp: site_matches_person_def JStr place_text_def biography_text_def
        plain_person_raw_def example_platform_def js_def i sinh_tai_def sinh_o_def nguoi_def
        que_def)
qed (simp_all add: site_matches_person_def)

lemma linked_strategyA:
  "strategyA example_platform linked_refData [example_site] plain_person_raw = Value [js ''c1'']"
  "strategyA example_platform linked_refData [example_site, example_city] plain_person_raw
     = Value [js ''c1'']"
  by (simp_all add: resolver_eval linked_refData_def plain_person_raw_def example_site_def
      example_city_def)

lemma linked_sorted:
  "sort_sites [example_site] = Value (searchableSites [example_site])"
  "sort_sites [example_site, example_city] = Value (searchableSites [example_site, example_city])"
  by (simp_all add: sort_sites_def example_site_def example_city_def)

lemma linked_person_unlocated:
  "locatePerson example_platform linked_refData [example_site] (searchableSites [example_site])
     plain_person_raw =
   Value ((mapPerson example_platform plain_person_raw)\<lparr>related_city_ids := Some [js ''c1'']\<rparr>)"
  by (simp add: searchableSites_def)
     (simp add: resolver_eval linked_refData_def plain_person_raw_def example_site_def)

lemma linked_person_located:
  "locatePerson example_platform linked_refData [example_site, example_city]
     (searchableSites [example_site, example_city]) plain_person_raw =
   Value ((mapPerson example_platform plain_person_raw)
            \<lparr>related_city_ids := Some [js ''c1''], person_latitude := Some (Fin 16.4619),
              person_longitude := Some (Fin 107.5955), location_name := Some (JStr (js ''Hue''))\<rparr>)"
  by (simp add: searchableSites_def)
     (simp add: resolver_eval linked_refData_def plain_person_raw_def example_site_def
        example_city_def name_length_def)

lemma linked_persons: "map snd (personMap linked_refData) = [plain_person_raw]"
  by (simp add: linked_refData_def)

text \<open>
  Claim C7, as stated: a person without a text match whose related cities are not empty
  gets the coordinates of the first related city. It fails where no site carries the
  identifier of that city, as when the site list holds the locations only: the person keeps
  its related city and has no coordinates.
\<close>

theorem person_without_city_site_has_no_coordinates:
  "find (site_matches_person example_platform plain_person_raw) (searchableSites [example_site])
     = None
   \<and> strategyA example_platform linked_refData [example_site] plain_person_raw
       = Value [js ''c1'']
   \<and> fetchPersons example_platform (fetchFromApi example_platform offline) linked_refData
         [example_site] []
       = Some ([(mapPerson example_platform plain_person_raw)
                  \<lparr>related_city_ids := Some [js ''c1'']\<rparr>],
               linked_refData,
               [(mapPerson example_platform plain_person_raw)
                  \<lparr>related_city_ids := Some [js ''c1'']\<rparr>])
   \<and> unlocated ((mapPerson example_platform plain_person_raw)
                   \<lparr>related_city_ids := Some [js ''c1'']\<rparr>)"
proof -
  have n: "find (site_matches_person example_platform plain_person_raw)
             (searchableSites [example_site]) = None"
    by (simp add: find_None_iff plain_person_no_match)
  have m: "map (locatePerson example_platform linked_refData [example_site]
                  (searchableSites [example_site]))
             (map snd (personMap linked_refData))
           = map Value [(mapPerson example_platform plain_person_raw)
                          \<lparr>related_city_ids := Some [js ''c1'']\<rparr>]"
    by (simp only: linked_persons list.map linked_person_unlocated)
  have l: "isLoaded linked_refData" by (simp add: linked_refData_def)
  have f: "fetchPersons example_platform (fetchFromApi example_platform offline) linked_refData
         [example_site] []
       = Some ([(mapPerson example_platform plain_person_raw)
                  \<lparr>related_city_ids := Some [js ''c1'']\<rparr>],
               linked_refData,
               [(mapPerson example_platform plain_person_raw)
                  \<lparr>related_city_ids := Some [js ''c1'']\<rparr>])"
    using fetchPersons_loaded[OF l _ linked_sorted(1) m] by simp
  have u: "unlocated ((mapPerson example_platform plain_person_raw)
                        \<lparr>related_city_ids := Some [js ''c1'']\<rparr>)"
    by (simp add: unlocated_def mapPerson_def Let_def)
  show ?thesis using n linked_strategyA(1) f u by simp
qed

text \<open>
  Claim C7, amended: a person that \<^verbatim>\<open>fetchPersons\<close> returns and that no site matches keeps
  the related cities of the linked events. The person has no coordinates when these are
  empty, and when no site of the site list carries the first of them as its identifier.
  The person takes latitude, longitude and name from the first site of the site list that
  carries that identifier when this site is a city. (The case in which that site is not a
  city is left open.)
\<close>

theorem person_location_fallback:
  assumes "fetchPersons P api refData cache personCache = Some (persons, refData', personCache')"
    and "sites_for_persons P api cache = Some (Value sites)"
    and "i < length persons"
    and "find (site_matches_person P (snd (personMap refData' ! i))) (searchableSites sites)
           = None"
  shows "\<exists>ids. strategyA P refData' sites (snd (personMap refData' ! i)) = Value ids
           \<and> related_city_ids (persons ! i) = Some ids
           \<and> (ids = [] \<longrightarrow> unlocated (persons ! i))
           \<and> (ids \<noteq> [] \<and> \<not> list_ex (site_has_id P (hd ids)) sites \<longrightarrow> unlocated (persons ! i))
           \<and> (\<forall>city. ids \<noteq> [] \<and> find (site_has_id P (hd ids)) sites = Some city
                  \<and> site_type city = JStr thanh_pho
                \<longrightarrow> located_at (persons ! i) city)"
proof -
  have "locatePerson P refData' sites (searchableSites sites) (snd (personMap refData' ! i))
          = Value (persons ! i)"
    using fetchPersons_person[OF assms(1,2,3)] by simp
  then obtain ids where a: "strategyA P refData' sites (snd (personMap refData' ! i)) = Value ids"
    and r: "related_city_ids (persons ! i) = Some ids"
    and c: "case ids of
              [] \<Rightarrow> unlocated (persons ! i)
            | c # others \<Rightarrow>
                (case find (site_has_id P c) sites of
                   None \<Rightarrow> unlocated (persons ! i)
                 | Some citySite \<Rightarrow> located_at (persons ! i) citySite)"
    using locatePerson_no_match[OF _ assms(4)] by blast
  have 1: "ids = [] \<longrightarrow> unlocated (persons ! i)" using c by auto
  have 2: "ids \<noteq> [] \<and> \<not> list_ex (site_has_id P (hd ids)) sites \<longrightarrow> unlocated (persons ! i)"
  proof
    assume h: "ids \<noteq> [] \<and> \<not> list_ex (site_has_id P (hd ids)) sites"
    then obtain c' others where i: "ids = c' # others" by (cases ids) auto
    then have "find (site_has_id P c') sites = None"
      using h by (simp add: find_None_iff list_ex_iff)
    then show "unlocated (persons ! i)" using c i by simp
  qed
  have 3: "\<forall>city. ids \<noteq> [] \<and> find (site_has_id P (hd ids)) sites = Some city
                  \<and> site_type city = JStr thanh_pho
                \<longrightarrow> located_at (persons ! i) city"
  proof (intro allI impI)
    fix city
    assume h: "ids \<noteq> [] \<and> find (site_has_id P (hd ids)) sites = Some city
                  \<and> site_type city = JStr thanh_pho"
    then obtain c' others where i: "ids = c' # others" by (cases ids) auto
    then show "located_at (persons ! i) city" using c h by simp
  qed
  show ?thesis using a r 1 2 3 by blast
qed

theorem person_location_fallback_witness:
  "\<exists>p. fetchPersons example_platform (fetchFromApi example_platform offline) linked_refData
          [example_site, example_city] []
        = Some ([p], linked_refData, [p])
      \<and> find (site_matches_person example_platform plain_person_raw)
            (searchableSites [example_site, example_city]) = None
      \<and> strategyA example_platform linked_refData [example_site, example_city] plain_person_raw
          = Value [js ''c1'']
      \<and> find (site_has_id example_platform (js ''c1'')) [example_site, example_city]
          = Some example_city
      \<and> site_type example_city = JStr thanh_pho
      \<and> related_city_ids p = Some [js ''c1'']
      \<and> located_at p example_city
      \<and> location_name p = Some (JStr (js ''Hue''))"
proof -
  let ?sites = "[example_site, example_city]"
  let ?api = "fetchFromApi example_platform offline"
  define p where "p = (mapPerson example_platform plain_person_raw)
            \<lparr>related_city_ids := Some [js ''c1''], person_latitude := Some (Fin 16.4619),
              person_longitude := Some (Fin 107.5955), location_name := Some (JStr (js ''Hue''))\<rparr>"
  have n: "find (site_matches_person example_platform plain_person_raw)
             (searchableSites ?sites) = None"
    by (simp add: find_None_iff plain_person_no_match)
  have m: "map (locatePerson example_platform linked_refData ?sites (searchableSites ?sites))
             (map snd (personMap linked_refData)) = map Value [p]"
    by (simp only: linked_persons list.map linked_person_located p_def)
  have l: "isLoaded linked_refData" by (simp add: linked_refData_def)
  have f: "fetchPersons example_platform ?api linked_refData ?sites [] =
             Some ([p], linked_refData, [p])"
    and s: "sites_for_persons example_platform ?api ?sites = Some (Value ?sites)"
    using fetchPersons_loaded[OF l _ linked_sorted(2) m, of ?api "[]"] by simp_all
  have r: "snd (personMap linked_refData ! 0) = plain_person_raw"
    by (simp add: linked_refData_def)
  have n': "find (site_matches_person example_platform (snd (personMap linked_refData ! 0)))
              (searchableSites ?sites) = None"
    by (simp only: r n)
  have i: "0 < length [p]" by simp
  have c: "find (site_has_id example_platform (js ''c1'')) ?sites = Some example_city"
    by (simp add: site_has_id_def example_site_def example_city_def js_def)
  have t: "site_type example_city = JStr thanh_pho" by (simp add: example_city_def)
  obtain ids where a: "strategyA example_platform linked_refData ?sites
                         (snd (personMap linked_refData ! 0)) = Value ids"
    and ri: "related_city_ids ([p] ! 0) = Some ids"
    and lo: "\<forall>city. ids \<noteq> [] \<and> find (site_has_id example_platform (hd ids)) ?sites = Some city
                  \<and> site_type city = JStr thanh_pho
                \<longrightarrow> located_at ([p] ! 0) city"
    using person_location_fallback[OF f s i n'] by blast
  have ids: "ids = [js ''c1'']" using a by (simp only: r linked_strategyA(2)) simp
  have rp: "related_city_ids p = Some [js ''c1'']" using ri ids by simp
  have "located_at ([p] ! 0) example_city"
    using lo c t unfolding ids by simp
  then have lp: "located_at p example_city" by simp
  then have nm: "location_name p = Some (JStr (js ''Hue''))"
    by (simp add: located_at_def example_city_def)
  show ?thesis using f n linked_strategyA(2) c t rp lp nm by blast
qed

section \<open>Facts about the geocoding adapter\<close>

text \<open>
  Claim C9: for a query that is empty or shorter than three characters,
  \<^verbatim>\<open>searchAddress\<close> resolves to the empty array and requests nothing.
\<close>

theorem searchAddress_short_query:
  assumes "length query < 3"
  shows "searchAddress P net query = ([], [])"
  using assms by (simp add: searchAddress_def)

theorem searchAddress_short_query_witness:
  "\<forall>P net. length (js ''Hu'') < 3 \<and> searchAddress P net (js ''Hu'') = ([], [])
           \<and> searchAddress P net [] = ([], [])"
proof (intro allI)
  fix P :: platform and net :: network
  have h: "length (js ''Hu'') < 3" by (simp add: js_def)
  have e: "length ([] :: jsstring) < 3" by simp
  show "length (js ''Hu'') < 3 \<and> searchAddress P net (js ''Hu'') = ([], [])
           \<and> searchAddress P net [] = ([], [])"
    using h searchAddress_short_query[OF h, of P net] searchAddress_short_query[OF e, of P net]
    by simp
qed

lemma searchAddress_requests:
  assumes "3 \<le> length query" and "encodeURIComponent P query = Some q"
  shows "snd (searchAddress P net query) = [nominatim_search_url q]"
proof -
  have "query \<noteq> []" using assms(1) by auto
  then show ?thesis
    using assms
    by (simp add: searchAddress_def split: http.splits option.splits outcome.splits)
qed

lemma searchAddress_example:
  "\<forall>P. encodeURIComponent P (js ''Hue'') = Some (js ''Hue'') \<longrightarrow>
     map result_name (fst (searchAddress P
       (\<lambda>url. (0, Response 200
          (Some (JArr [JObj [(js ''display_name'', JStr (js ''Hue, Vietnam'')),
                             (js ''lat'', JStr (js ''16.46'')),
                             (js ''lon'', JStr (js ''107.59''))]]))))
       (js ''Hue''))) = [js ''Hue'']"
  by (simp add: searchAddress_def map_address_item_def js_def)

end
